theory Spec2Isabelle
  imports Main
begin

section \<open>Data model of \<^verbatim>\<open>src/page-manager.ts\<close>\<close>

text \<open>
  A \<^verbatim>\<open>Locale\<close> has a \<^verbatim>\<open>code\<close> and optional display and region properties; the latter
  are kept as a list of property names and values. The synthetic locale
  \<^verbatim>\<open>{ code: defaultLocaleCode }\<close> has none of them.
\<close>

record Locale =
  code :: string
  meta :: "(string \<times> string) list"

text \<open>
  A \<^verbatim>\<open>NuxtPage\<close>: \<^verbatim>\<open>path\<close> is required, the other properties may be absent (\<open>None\<close>).
  The property \<^verbatim>\<open>file\<close> is called \<open>pageFile\<close>. Properties that the page manager only copies
  along (\<^verbatim>\<open>meta\<close>, \<^verbatim>\<open>alias\<close>, ...) are left out. A property that is present with the value
  \<^verbatim>\<open>undefined\<close> is not distinguished from an absent one.
\<close>

datatype NuxtPage = NuxtPage
  (name: "string option")
  (path: string)
  (pageFile: "string option")
  (redirect: "string option")
  (children: "NuxtPage list option")

text \<open>
  Objects that are used as dictionaries are maps from their own property names. A key that
  names a property of \<^verbatim>\<open>Object.prototype\<close> (a locale code or a page name such as
  \<^verbatim>\<open>constructor\<close>) is outside the model.
\<close>

type_synonym localePaths = "string \<rightharpoonup> string"

type_synonym pathIndex = "string \<rightharpoonup> localePaths"

text \<open>
  A value of \<^verbatim>\<open>globalLocaleRoutes\<close>, of type
  \<^verbatim>\<open>Record<string, string> | false | boolean\<close>.
\<close>

datatype routeEntry = Flag bool | LocalePaths localePaths

record PageManager =
  locales :: "Locale list"
  defaultLocale :: Locale
  includeDefaultLocaleRoute :: bool
  localizedPaths :: pathIndex
  activeLocaleCodes :: "string list"
  globalLocaleRoutes :: "string \<rightharpoonup> routeEntry"

text \<open>An exception thrown while a page file is read or parsed.\<close>

datatype error = FileError string

record I18nRouteConfig =
  localeRoutes :: "localePaths option"

text \<open>
  The functions that \<^verbatim>\<open>page-manager.ts\<close> imports. The module \<^verbatim>\<open>./utils\<close> is not among the
  sources, and \<^verbatim>\<open>node:path\<close> and \<^verbatim>\<open>node:fs\<close> are the platform's; the page manager is
  modelled over any implementation of them. Reading and parsing a page file can throw.
  \<^verbatim>\<open>isLocaleDefault\<close> is called with a \<^verbatim>\<open>Locale\<close> (\<open>Inr\<close>) and with a locale code (\<open>Inl\<close>),
  \<^verbatim>\<open>buildFullPath\<close> with one code (\<open>Inl\<close>) and with an array of codes (\<open>Inr\<close>). The second
  argument of \<^verbatim>\<open>buildRouteName\<close> is \<^verbatim>\<open>localeCodes[0]\<close>, which is \<^verbatim>\<open>undefined\<close> (\<open>None\<close>) on
  an empty array.
\<close>

record deps =
  path_join :: "string \<Rightarrow> string \<Rightarrow> string"
  path_resolve :: "string \<Rightarrow> string \<Rightarrow> string"
  readFileSync :: "string \<Rightarrow> error + string"
  extractDefineI18nRouteConfig :: "string \<Rightarrow> string \<Rightarrow> error + I18nRouteConfig option"
  normalizePath :: "string \<Rightarrow> string"
  isLocaleDefault :: "string + Locale \<Rightarrow> Locale \<Rightarrow> bool \<Rightarrow> bool"
  isPageRedirectOnly :: "NuxtPage \<Rightarrow> bool"
  buildRouteName :: "string \<Rightarrow> string option \<Rightarrow> bool \<Rightarrow> string"
  shouldAddLocalePrefix :: "string \<Rightarrow> Locale \<Rightarrow> bool \<Rightarrow> bool \<Rightarrow> bool"
  buildFullPath :: "string + string list \<Rightarrow> string \<Rightarrow> string"
  removeLeadingSlash :: "string \<Rightarrow> string"

section \<open>JavaScript idioms\<close>

text \<open>Truthiness of a value of type \<^verbatim>\<open>string | undefined\<close>: the empty string is falsy.\<close>

definition truthy :: "string option \<Rightarrow> bool" where
  "truthy v = (case v of None \<Rightarrow> False | Some s \<Rightarrow> s \<noteq> [])"

text \<open>\<^verbatim>\<open>page.name ?? ''\<close>\<close>

definition nameOrEmpty :: "NuxtPage \<Rightarrow> string" where
  "nameOrEmpty page = (case name page of None \<Rightarrow> [] | Some n \<Rightarrow> n)"

text \<open>\<^verbatim>\<open>page.children ?? []\<close>\<close>

definition childrenOrEmpty :: "NuxtPage \<Rightarrow> NuxtPage list" where
  "childrenOrEmpty page = (case children page of None \<Rightarrow> [] | Some cs \<Rightarrow> cs)"

text \<open>\<^verbatim>\<open>paths[fullPath]?.[code]\<close>\<close>

definition lookupPath :: "pathIndex \<Rightarrow> string \<Rightarrow> string \<Rightarrow> string option" where
  "lookupPath paths fullPath c = (case paths fullPath of None \<Rightarrow> None | Some m \<Rightarrow> m c)"

text \<open>\<^verbatim>\<open>localeCodes[0]\<close>\<close>

definition firstCode :: "string list \<Rightarrow> string option" where
  "firstCode localeCodes = (case localeCodes of [] \<Rightarrow> None | c # _ \<Rightarrow> Some c)"

text \<open>The assignments \<^verbatim>\<open>page.path = v\<close> and \<^verbatim>\<open>page.children = v\<close>.\<close>

definition setPath :: "NuxtPage \<Rightarrow> string \<Rightarrow> NuxtPage" where
  "setPath page v = NuxtPage (name page) v (pageFile page) (redirect page) (children page)"

definition setChildren :: "NuxtPage \<Rightarrow> NuxtPage list \<Rightarrow> NuxtPage" where
  "setChildren page v = NuxtPage (name page) (path page) (pageFile page) (redirect page) (Some v)"

text \<open>
  \<^verbatim>\<open>Object.assign(target, source)\<close>: every property that \<open>source\<close> has overwrites the
  one of \<open>target\<close>; the others are kept.
\<close>

definition objectAssign :: "NuxtPage \<Rightarrow> NuxtPage \<Rightarrow> NuxtPage" where
  "objectAssign target source = NuxtPage
     (case name source of None \<Rightarrow> name target | Some n \<Rightarrow> Some n)
     (path source)
     (case pageFile source of None \<Rightarrow> pageFile target | Some f \<Rightarrow> Some f)
     (case redirect source of None \<Rightarrow> redirect target | Some r \<Rightarrow> Some r)
     (case children source of None \<Rightarrow> children target | Some cs \<Rightarrow> Some cs)"

text \<open>
  \<^verbatim>\<open>new Map(currentChildren.map(child => [child.name, child])).get(key)\<close>: the map holds
  references, so the entry is given as the position of the child in \<open>currentChildren\<close>; of
  several children with one name the last one is kept.
\<close>

fun childrenMapGet :: "NuxtPage list \<Rightarrow> string option \<Rightarrow> nat option" where
  "childrenMapGet [] key = None"
| "childrenMapGet (child # rest) key =
     (case childrenMapGet rest key of
        Some i \<Rightarrow> Some (Suc i)
      | None \<Rightarrow> if name child = key then Some 0 else None)"

text \<open>
  Modelled from the spec: \<^verbatim>\<open>cloneArray\<close> of \<^verbatim>\<open>./utils\<close>, which is not among the sources. It
  takes the snapshot of a page's children, "a value-copy of the children sequence, never a
  shared reference". Pages are values here, so the copy is the list itself.
\<close>

definition cloneArray :: "NuxtPage list \<Rightarrow> NuxtPage list" where
  "cloneArray array = array"

section \<open>The page manager\<close>

text \<open>
  The source mutates page objects in place; the model passes pages as values and returns
  the mutated page. No sharing is lost by this: the only arrays that are mutated are
  \<^verbatim>\<open>pages\<close> and \<^verbatim>\<open>additionalRoutes\<close>, the only objects that are mutated are the pages of the
  array (\<^verbatim>\<open>page.path\<close>, \<^verbatim>\<open>page.children\<close>) and the elements of \<^verbatim>\<open>currentChildren\<close>
  (\<^verbatim>\<open>Object.assign\<close>), and every route that is generated is a fresh object (an object spread)
  whose children are fresh objects, as are the children in the snapshot taken by
  \<^verbatim>\<open>cloneArray\<close>. The input is taken to be a tree: no page object occurs in it twice.
\<close>

subsection \<open>Constructor\<close>

definition findLocaleByCode :: "Locale list \<Rightarrow> string \<Rightarrow> Locale option" where
  "findLocaleByCode ls c = find (\<lambda>locale. code locale = c) ls"

definition computeActiveLocaleCodes :: "PageManager \<Rightarrow> string list" where
  "computeActiveLocaleCodes pm =
     map code (filter (\<lambda>locale. code locale \<noteq> code (defaultLocale pm)
                                  \<or> includeDefaultLocaleRoute pm) (locales pm))"

text \<open>
  \<^verbatim>\<open>new PageManager(locales, defaultLocaleCode, includeDefaultLocaleRoute, globalLocaleRoutes)\<close>;
  a \<^verbatim>\<open>globalLocaleRoutes\<close> that is null or undefined is \<open>None\<close>.
\<close>

definition newPageManager ::
  "Locale list \<Rightarrow> string \<Rightarrow> bool \<Rightarrow> (string \<rightharpoonup> routeEntry) option \<Rightarrow> PageManager" where
  "newPageManager ls defaultLocaleCode include routes =
     (let this = \<lparr> locales = ls,
                   defaultLocale = (case findLocaleByCode ls defaultLocaleCode of
                                      Some locale \<Rightarrow> locale
                                    | None \<Rightarrow> \<lparr> code = defaultLocaleCode, meta = [] \<rparr>),
                   includeDefaultLocaleRoute = include,
                   localizedPaths = Map.empty,
                   activeLocaleCodes = [],
                   globalLocaleRoutes = Map.empty \<rparr>
      in this \<lparr> activeLocaleCodes := computeActiveLocaleCodes this,
                globalLocaleRoutes := (case routes of None \<Rightarrow> Map.empty | Some g \<Rightarrow> g) \<rparr>)"

subsection \<open>Override indexer\<close>

lemma size_childrenOrEmpty:
  "size_list size (childrenOrEmpty page) < size page"
  by (cases page) (auto simp: childrenOrEmpty_def split: option.splits)

lemma size_childrenOrEmpty_double:
  "Suc (2 * size_list size (childrenOrEmpty page)) < 2 * size page"
  using size_childrenOrEmpty [of page] by linarith

text \<open>
  The fallback branch of \<^verbatim>\<open>extractLocalizedPaths\<close>: the page file is read and parsed, and
  the \<^verbatim>\<open>localeRoutes\<close> found there are recorded at the page's normalized full path.
\<close>

definition extractFromFile ::
  "deps \<Rightarrow> string \<Rightarrow> string \<Rightarrow> NuxtPage \<Rightarrow> pathIndex \<Rightarrow> error + pathIndex" where
  "extractFromFile d rootDir parentPath page acc =
     (case pageFile page of
        None \<Rightarrow> Inr acc
      | Some f \<Rightarrow>
          if f = [] then Inr acc
          else
            let filePath = path_resolve d rootDir f in
            (case readFileSync d filePath of
               Inl e \<Rightarrow> Inl e
             | Inr fileContent \<Rightarrow>
                (case extractDefineI18nRouteConfig d fileContent filePath of
                   Inl e \<Rightarrow> Inl e
                 | Inr None \<Rightarrow> Inr acc
                 | Inr (Some i18nRouteConfig) \<Rightarrow>
                    (case localeRoutes i18nRouteConfig of
                       None \<Rightarrow> Inr acc
                     | Some routes \<Rightarrow>
                         Inr (acc(normalizePath d (path_join d parentPath (path page)) \<mapsto> routes))))))"

text \<open>
  \<^verbatim>\<open>extractLocalizedPaths\<close>; \<open>extractPages\<close> is its \<^verbatim>\<open>forEach\<close> loop over the local
  \<^verbatim>\<open>localizedPaths\<close>, and \<open>extractPage\<close> the body of the loop.
\<close>

function extractLocalizedPaths ::
    "deps \<Rightarrow> PageManager \<Rightarrow> NuxtPage list \<Rightarrow> string \<Rightarrow> string \<Rightarrow> error + pathIndex"
  and extractPages ::
    "deps \<Rightarrow> PageManager \<Rightarrow> string \<Rightarrow> string \<Rightarrow> NuxtPage list \<Rightarrow> pathIndex \<Rightarrow> error + pathIndex"
  and extractPage ::
    "deps \<Rightarrow> PageManager \<Rightarrow> string \<Rightarrow> string \<Rightarrow> NuxtPage \<Rightarrow> pathIndex \<Rightarrow> error + pathIndex"
where
  "extractLocalizedPaths d pm pages rootDir parentPath =
     extractPages d pm rootDir parentPath pages Map.empty"
| "extractPages d pm rootDir parentPath [] acc = Inr acc"
| "extractPages d pm rootDir parentPath (page # rest) acc =
     (case extractPage d pm rootDir parentPath page acc of
        Inl e \<Rightarrow> Inl e
      | Inr acc' \<Rightarrow> extractPages d pm rootDir parentPath rest acc')"
| "extractPage d pm rootDir parentPath page acc =
     (case (case globalLocaleRoutes pm (nameOrEmpty page) of
              None \<Rightarrow> extractFromFile d rootDir parentPath page acc
            | Some (Flag False) \<Rightarrow> extractFromFile d rootDir parentPath page acc
            | Some (Flag True) \<Rightarrow> Inr acc
            | Some (LocalePaths globalLocalePath) \<Rightarrow>
                Inr (acc(normalizePath d (path_join d parentPath (path page)) \<mapsto> globalLocalePath)))
      of
        Inl e \<Rightarrow> Inl e
      | Inr acc' \<Rightarrow>
          if childrenOrEmpty page \<noteq> [] then
            (case extractLocalizedPaths d pm (childrenOrEmpty page) rootDir
                    (normalizePath d (path_join d parentPath (path page))) of
               Inl e \<Rightarrow> Inl e
             | Inr sub \<Rightarrow> Inr (acc' ++ sub))
          else Inr acc')"
  by pat_completeness auto
termination
  by (relation "measure (\<lambda>x. case x of
         Inl (d, pm, pages, rootDir, parentPath) \<Rightarrow> 2 * size_list size pages + 1
       | Inr (Inl (d, pm, rootDir, parentPath, pages, acc)) \<Rightarrow> 2 * size_list size pages
       | Inr (Inr (d, pm, rootDir, parentPath, page, acc)) \<Rightarrow> 2 * size page)")
     (auto simp: size_childrenOrEmpty_double)

subsection \<open>Path and name builders\<close>

definition buildLocalizedRoutePath ::
  "deps \<Rightarrow> PageManager \<Rightarrow> string \<Rightarrow> string \<Rightarrow> localePaths option \<Rightarrow> bool \<Rightarrow> string" where
  "buildLocalizedRoutePath d pm routePath locale customLocalePaths addLocalePrefix =
     (let basePath = (case customLocalePaths of
                        None \<Rightarrow> routePath
                      | Some m \<Rightarrow>
                          (case m locale of
                             None \<Rightarrow> routePath
                           | Some customPath \<Rightarrow>
                               if customPath = [] then routePath else customPath));
          normalizedBasePath = normalizePath d basePath
      in if shouldAddLocalePrefix d locale (defaultLocale pm) addLocalePrefix
              (includeDefaultLocaleRoute pm)
         then buildFullPath d (Inl locale) normalizedBasePath
         else normalizedBasePath)"

definition buildLocalizedRouteName ::
  "deps \<Rightarrow> PageManager \<Rightarrow> string \<Rightarrow> string \<Rightarrow> bool \<Rightarrow> string" where
  "buildLocalizedRouteName d pm baseName locale modifyName =
     (if modifyName
         \<and> \<not> isLocaleDefault d (Inl locale) (defaultLocale pm) (includeDefaultLocaleRoute pm)
      then ''localized-'' @ baseName @ ''-'' @ locale
      else baseName)"

definition buildRoutePath ::
  "deps \<Rightarrow> PageManager \<Rightarrow> string list \<Rightarrow> string \<Rightarrow> string \<Rightarrow> bool \<Rightarrow> string" where
  "buildRoutePath d pm localeCodes originalPath customPath isCustom =
     (if isCustom then
        (if includeDefaultLocaleRoute pm \<or> code (defaultLocale pm) \<notin> set localeCodes
         then buildFullPath d (Inr localeCodes) customPath
         else normalizePath d customPath)
      else buildFullPath d (Inr localeCodes) originalPath)"

subsection \<open>Localized copies of a route\<close>

definition createLocalizedChildRoute ::
  "deps \<Rightarrow> PageManager \<Rightarrow> NuxtPage \<Rightarrow> string \<Rightarrow> string \<Rightarrow> localePaths option \<Rightarrow> NuxtPage list
     \<Rightarrow> bool \<Rightarrow> bool \<Rightarrow> NuxtPage" where
  "createLocalizedChildRoute d pm route routePath locale customLocalePaths cs modifyName
       addLocalePrefix =
     (let finalPath = buildLocalizedRoutePath d pm routePath locale customLocalePaths
                        addLocalePrefix;
          routeName = buildLocalizedRouteName d pm (nameOrEmpty route) locale modifyName
      in NuxtPage (Some routeName) (removeLeadingSlash d finalPath) (pageFile route)
           (redirect route) (Some cs))"

text \<open>
  \<^verbatim>\<open>createLocalizedChildren\<close> is a \<^verbatim>\<open>flatMap\<close> of \<^verbatim>\<open>createLocalizedVariants\<close>, which calls
  it again on the children of the route, with \<^verbatim>\<open>addLocalePrefix\<close> at its default
  \<^verbatim>\<open>false\<close>.
\<close>

function createLocalizedChildren ::
    "deps \<Rightarrow> PageManager \<Rightarrow> NuxtPage list \<Rightarrow> string \<Rightarrow> string list \<Rightarrow> bool \<Rightarrow> bool
       \<Rightarrow> NuxtPage list"
  and createLocalizedVariants ::
    "deps \<Rightarrow> PageManager \<Rightarrow> NuxtPage \<Rightarrow> string \<Rightarrow> string list \<Rightarrow> bool \<Rightarrow> bool
       \<Rightarrow> NuxtPage list"
where
  "createLocalizedChildren d pm [] parentPath localeCodes modifyName addLocalePrefix = []"
| "createLocalizedChildren d pm (route # routes) parentPath localeCodes modifyName addLocalePrefix =
     createLocalizedVariants d pm route parentPath localeCodes modifyName addLocalePrefix
     @ createLocalizedChildren d pm routes parentPath localeCodes modifyName addLocalePrefix"
| "createLocalizedVariants d pm route parentPath localeCodes modifyName addLocalePrefix =
     (let routePath = normalizePath d (path route);
          fullPath = normalizePath d (path_join d parentPath routePath);
          customLocalePaths = localizedPaths pm fullPath;
          localizedChildren = createLocalizedChildren d pm (childrenOrEmpty route) fullPath
                                localeCodes modifyName False
      in map (\<lambda>locale. createLocalizedChildRoute d pm route routePath locale customLocalePaths
                          localizedChildren modifyName addLocalePrefix) localeCodes)"
  by pat_completeness auto
termination
  by (relation "measure (\<lambda>x. case x of
         Inl (d, pm, routes, parentPath, localeCodes, modifyName, addLocalePrefix) \<Rightarrow>
           2 * size_list size routes
       | Inr (d, pm, route, parentPath, localeCodes, modifyName, addLocalePrefix) \<Rightarrow>
           2 * size route)")
     (auto simp: size_childrenOrEmpty)

definition createLocalizedRoute ::
  "deps \<Rightarrow> PageManager \<Rightarrow> NuxtPage \<Rightarrow> string list \<Rightarrow> NuxtPage list \<Rightarrow> bool \<Rightarrow> string
     \<Rightarrow> NuxtPage" where
  "createLocalizedRoute d pm page localeCodes originalChildren isCustom customPath =
     (let routePath = buildRoutePath d pm localeCodes (path page) customPath isCustom;
          routeName = buildRouteName d (nameOrEmpty page) (firstCode localeCodes) isCustom
      in NuxtPage (Some routeName) routePath (pageFile page) (redirect page)
           (Some (createLocalizedChildren d pm originalChildren (path page) localeCodes True
                    False)))"

definition mergeChildren ::
  "deps \<Rightarrow> PageManager \<Rightarrow> NuxtPage list \<Rightarrow> string \<Rightarrow> string list \<Rightarrow> NuxtPage list" where
  "mergeChildren d pm originalChildren parentPath localeCodes =
     (let localizedChildren = createLocalizedChildren d pm originalChildren parentPath
                                localeCodes False False
      in originalChildren @ localizedChildren)"

subsection \<open>Custom mode\<close>

text \<open>
  The body of the \<^verbatim>\<open>forEach\<close> over the locales in \<^verbatim>\<open>addCustomGlobalLocalizedRoutes\<close>; the
  state is the page, which is mutated in place, and \<^verbatim>\<open>additionalRoutes\<close>.
\<close>

definition addCustomGlobalLocalizedRoute ::
  "deps \<Rightarrow> PageManager \<Rightarrow> localePaths \<Rightarrow> Locale \<Rightarrow> NuxtPage \<times> NuxtPage list
     \<Rightarrow> NuxtPage \<times> NuxtPage list" where
  "addCustomGlobalLocalizedRoute d pm customRoutePaths locale st =
     (case st of (page, additionalRoutes) \<Rightarrow>
        (case customRoutePaths (code locale) of
           None \<Rightarrow> (page, additionalRoutes)
         | Some customPath \<Rightarrow>
             if customPath = [] then (page, additionalRoutes)
             else if isLocaleDefault d (Inr locale) (defaultLocale pm)
                       (includeDefaultLocaleRoute pm)
             then (setPath page (normalizePath d customPath), additionalRoutes)
             else (page, additionalRoutes
                           @ [createLocalizedRoute d pm page [code locale]
                                (childrenOrEmpty page) True customPath])))"

definition addCustomGlobalLocalizedRoutes ::
  "deps \<Rightarrow> PageManager \<Rightarrow> NuxtPage \<Rightarrow> localePaths \<Rightarrow> NuxtPage list
     \<Rightarrow> NuxtPage \<times> NuxtPage list" where
  "addCustomGlobalLocalizedRoutes d pm page customRoutePaths additionalRoutes =
     fold (addCustomGlobalLocalizedRoute d pm customRoutePaths) (locales pm)
       (page, additionalRoutes)"

subsection \<open>Default mode\<close>

definition filterLocaleCodesWithoutCustomPaths :: "PageManager \<Rightarrow> string \<Rightarrow> string list" where
  "filterLocaleCodesWithoutCustomPaths pm fullPath =
     filter (\<lambda>c. \<not> truthy (lookupPath (localizedPaths pm) fullPath c)) (activeLocaleCodes pm)"

text \<open>The body of the \<^verbatim>\<open>forEach\<close> over the locales in \<^verbatim>\<open>addCustomLocalizedRoutes\<close>.\<close>

definition addCustomLocalizedRoute ::
  "deps \<Rightarrow> PageManager \<Rightarrow> string \<Rightarrow> NuxtPage list \<Rightarrow> Locale \<Rightarrow> NuxtPage \<times> NuxtPage list
     \<Rightarrow> NuxtPage \<times> NuxtPage list" where
  "addCustomLocalizedRoute d pm fullPath originalChildren locale st =
     (case st of (page, additionalRoutes) \<Rightarrow>
        (case lookupPath (localizedPaths pm) fullPath (code locale) of
           None \<Rightarrow> (page, additionalRoutes)
         | Some customPath \<Rightarrow>
             if customPath = [] then (page, additionalRoutes)
             else if isLocaleDefault d (Inr locale) (defaultLocale pm)
                       (includeDefaultLocaleRoute pm)
             then (setChildren page
                     (createLocalizedChildren d pm originalChildren [] [code locale] False False),
                   additionalRoutes)
             else (page, additionalRoutes
                           @ [createLocalizedRoute d pm page [code locale] originalChildren
                                True customPath])))"

definition addCustomLocalizedRoutes ::
  "deps \<Rightarrow> PageManager \<Rightarrow> NuxtPage \<Rightarrow> string \<Rightarrow> NuxtPage list \<Rightarrow> NuxtPage list
     \<Rightarrow> NuxtPage \<times> NuxtPage list" where
  "addCustomLocalizedRoutes d pm page fullPath originalChildren additionalRoutes =
     fold (addCustomLocalizedRoute d pm fullPath originalChildren) (locales pm)
       (page, additionalRoutes)"

text \<open>
  The body of the \<^verbatim>\<open>forEach\<close> over \<^verbatim>\<open>localizedChildren\<close> in
  \<^verbatim>\<open>adjustRouteForDefaultLocale\<close>. \<open>initial\<close> is \<^verbatim>\<open>currentChildren\<close> as it was when
  \<^verbatim>\<open>childrenMap\<close> was built from it; the state is \<^verbatim>\<open>currentChildren\<close>, whose elements are
  overwritten in place or which grows at its end.
\<close>

definition mergeLocalizedChild ::
  "NuxtPage list \<Rightarrow> NuxtPage \<Rightarrow> NuxtPage list \<Rightarrow> NuxtPage list" where
  "mergeLocalizedChild initial localizedChild currentChildren =
     (case childrenMapGet initial (name localizedChild) of
        Some i \<Rightarrow> currentChildren[i := objectAssign (currentChildren ! i) localizedChild]
      | None \<Rightarrow> currentChildren @ [localizedChild])"

definition adjustRouteForDefaultLocale ::
  "deps \<Rightarrow> PageManager \<Rightarrow> NuxtPage \<Rightarrow> NuxtPage list \<Rightarrow> NuxtPage" where
  "adjustRouteForDefaultLocale d pm page0 originalChildren =
     (let defaultLocalePath = lookupPath (localizedPaths pm) (path page0)
                                (code (defaultLocale pm));
          page = (case defaultLocalePath of
                    None \<Rightarrow> page0
                  | Some customPath \<Rightarrow>
                      if customPath = [] then page0
                      else setPath page0 (normalizePath d customPath));
          currentChildren = childrenOrEmpty page
      in if originalChildren \<noteq> [] then
           (let newName = normalizePath d (path_join d ''/'' (nameOrEmpty page));
                localizedChildren = mergeChildren d pm originalChildren newName
                                      [code (defaultLocale pm)]
            in setChildren page
                 (fold (mergeLocalizedChild currentChildren) localizedChildren currentChildren))
         else page)"

definition localizePage ::
  "deps \<Rightarrow> PageManager \<Rightarrow> NuxtPage \<Rightarrow> NuxtPage list \<Rightarrow> NuxtPage \<times> NuxtPage list" where
  "localizePage d pm page additionalRoutes =
     (if isPageRedirectOnly d page then (page, additionalRoutes)
      else
        (let originalChildren = cloneArray (childrenOrEmpty page);
             normalizedFullPath = normalizePath d (path page);
             localeCodesWithoutCustomPaths =
               filterLocaleCodesWithoutCustomPaths pm normalizedFullPath;
             additionalRoutes1 =
               (if localeCodesWithoutCustomPaths \<noteq> []
                then additionalRoutes
                       @ [createLocalizedRoute d pm page localeCodesWithoutCustomPaths
                            originalChildren False []]
                else additionalRoutes)
         in case addCustomLocalizedRoutes d pm page normalizedFullPath originalChildren
                   additionalRoutes1 of
              (page1, additionalRoutes2) \<Rightarrow>
                (adjustRouteForDefaultLocale d pm page1 originalChildren, additionalRoutes2)))"

subsection \<open>\<^verbatim>\<open>extendPages\<close>\<close>

text \<open>
  The body of the \<^verbatim>\<open>forEach\<close> over the pages: the dispatch on the entry of
  \<^verbatim>\<open>globalLocaleRoutes\<close> for the page's name.
\<close>

definition extendPage ::
  "deps \<Rightarrow> PageManager \<Rightarrow> NuxtPage \<Rightarrow> NuxtPage list \<Rightarrow> NuxtPage \<times> NuxtPage list" where
  "extendPage d pm page additionalRoutes =
     (case globalLocaleRoutes pm (nameOrEmpty page) of
        Some (Flag False) \<Rightarrow> (page, additionalRoutes)
      | Some (LocalePaths customRoute) \<Rightarrow>
          addCustomGlobalLocalizedRoutes d pm page customRoute additionalRoutes
      | _ \<Rightarrow> localizePage d pm page additionalRoutes)"

fun extendEach ::
  "deps \<Rightarrow> PageManager \<Rightarrow> NuxtPage list \<Rightarrow> NuxtPage list \<Rightarrow> NuxtPage list \<times> NuxtPage list" where
  "extendEach d pm [] additionalRoutes = ([], additionalRoutes)"
| "extendEach d pm (page # rest) additionalRoutes =
     (case extendPage d pm page additionalRoutes of
        (page', additionalRoutes') \<Rightarrow>
          (case extendEach d pm rest additionalRoutes' of
             (rest', additionalRoutes'') \<Rightarrow> (page' # rest', additionalRoutes'')))"

text \<open>
  \<^verbatim>\<open>extendPages(pages, rootDir)\<close> returns the page manager, whose \<^verbatim>\<open>localizedPaths\<close> it
  has set, and the array \<^verbatim>\<open>pages\<close> as it is after the call; an exception out of the
  indexing pass leaves both as they were and is the result \<open>Inl\<close>.
\<close>

definition extendPages ::
  "deps \<Rightarrow> PageManager \<Rightarrow> NuxtPage list \<Rightarrow> string \<Rightarrow> error + PageManager \<times> NuxtPage list" where
  "extendPages d pm pages rootDir =
     (case extractLocalizedPaths d pm pages rootDir [] of
        Inl e \<Rightarrow> Inl e
      | Inr paths \<Rightarrow>
          (let this = pm \<lparr> localizedPaths := paths \<rparr> in
           case extendEach d this pages [] of
             (pages', additionalRoutes) \<Rightarrow> Inr (this, pages' @ additionalRoutes)))"

text \<open>
  What one run of the loop body does to a page, and the routes it appends for it. The body
  only ever appends to \<^verbatim>\<open>additionalRoutes\<close>, so both are taken on the empty array.
\<close>

definition mutatedPage :: "deps \<Rightarrow> PageManager \<Rightarrow> NuxtPage \<Rightarrow> NuxtPage" where
  "mutatedPage d pm page = fst (extendPage d pm page [])"

definition appendedRoutes :: "deps \<Rightarrow> PageManager \<Rightarrow> NuxtPage \<Rightarrow> NuxtPage list" where
  "appendedRoutes d pm page = snd (extendPage d pm page [])"

section \<open>The imported functions, as the specification describes them\<close>

text \<open>
  The theorems below that hold for every \<open>deps\<close> need none of this section. It gives
  one implementation of the imported functions, on which the page manager can be run on
  concrete pages.
\<close>

subsection \<open>\<^verbatim>\<open>node:path\<close>, POSIX flavour\<close>

fun splitOn :: "char \<Rightarrow> string \<Rightarrow> string list" where
  "splitOn sep [] = [[]]"
| "splitOn sep (c # cs) =
     (case splitOn sep cs of
        [] \<Rightarrow> [[c]]
      | seg # segs \<Rightarrow> if c = sep then [] # seg # segs else (c # seg) # segs)"

definition startsWithSlash :: "string \<Rightarrow> bool" where
  "startsWithSlash s = (case s of [] \<Rightarrow> False | c # _ \<Rightarrow> c = CHR ''/'')"

definition endsWithSlash :: "string \<Rightarrow> bool" where
  "endsWithSlash s = (s \<noteq> [] \<and> last s = CHR ''/'')"

fun joinWith :: "string \<Rightarrow> string list \<Rightarrow> string" where
  "joinWith sep [] = []"
| "joinWith sep [s] = s"
| "joinWith sep (s # t # rest) = s @ sep @ joinWith sep (t # rest)"

text \<open>
  The segments of a path are resolved from left to right; \<open>acc\<close> holds the segments kept
  so far, the last one first.
\<close>

fun resolveSegments :: "bool \<Rightarrow> string list \<Rightarrow> string list \<Rightarrow> string list" where
  "resolveSegments allowAboveRoot acc [] = rev acc"
| "resolveSegments allowAboveRoot acc (seg # segs) =
     (if seg = [] \<or> seg = ''.'' then resolveSegments allowAboveRoot acc segs
      else if seg = ''..'' then
        (case acc of
           [] \<Rightarrow> resolveSegments allowAboveRoot (if allowAboveRoot then [''..''] else []) segs
         | kept # below \<Rightarrow>
             if kept = ''..'' then resolveSegments allowAboveRoot (''..'' # acc) segs
             else resolveSegments allowAboveRoot below segs)
      else resolveSegments allowAboveRoot (seg # acc) segs)"

definition posixNormalize :: "string \<Rightarrow> string" where
  "posixNormalize p =
     (if p = [] then ''.''
      else
        (let isAbsolute = startsWithSlash p;
             trailingSeparator = endsWithSlash p;
             body = joinWith ''/'' (resolveSegments (\<not> isAbsolute) [] (splitOn (CHR ''/'') p))
         in if body = [] then
              (if isAbsolute then ''/'' else if trailingSeparator then ''./'' else ''.'')
            else (if isAbsolute then ''/'' else []) @ body
                   @ (if trailingSeparator then ''/'' else [])))"

definition posixJoin :: "string \<Rightarrow> string \<Rightarrow> string" where
  "posixJoin a b =
     (if a = [] \<and> b = [] then ''.''
      else if a = [] then posixNormalize b
      else if b = [] then posixNormalize a
      else posixNormalize (a @ ''/'' @ b))"

text \<open>\<^verbatim>\<open>path.resolve(rootDir, file)\<close> for an absolute \<^verbatim>\<open>rootDir\<close>.\<close>

definition posixResolve :: "string \<Rightarrow> string \<Rightarrow> string" where
  "posixResolve rootDir f =
     (let p = (if startsWithSlash f then f else rootDir @ ''/'' @ f)
      in ''/'' @ joinWith ''/'' (resolveSegments False [] (splitOn (CHR ''/'') p)))"

subsection \<open>\<^verbatim>\<open>./utils\<close>\<close>

fun collapseSeparators :: "string \<Rightarrow> string" where
  "collapseSeparators (a # b # rest) =
     (if a = CHR ''/'' \<and> b = CHR ''/'' then collapseSeparators (b # rest)
      else a # collapseSeparators (b # rest))"
| "collapseSeparators s = s"

text \<open>
  Modelled from the spec: \<^verbatim>\<open>normalizePath\<close> of \<^verbatim>\<open>./utils\<close>, which is not among the sources.
  "Normalization: collapse repeated separators, enforce single leading separator, strip
  trailing separator except for the root."
\<close>

definition normalizePathSpec :: "string \<Rightarrow> string" where
  "normalizePathSpec p =
     (let collapsed = collapseSeparators p;
          rooted = (if startsWithSlash collapsed then collapsed else ''/'' @ collapsed)
      in if rooted \<noteq> ''/'' \<and> endsWithSlash rooted then butlast rooted else rooted)"

definition localeCodeOf :: "string + Locale \<Rightarrow> string" where
  "localeCodeOf locale = (case locale of Inl c \<Rightarrow> c | Inr l \<Rightarrow> code l)"

text \<open>
  Modelled from the spec: \<^verbatim>\<open>isLocaleDefault\<close> of \<^verbatim>\<open>./utils\<close>, which is not among the
  sources. The locale that is handled in place is "the default locale when
  \<^verbatim>\<open>includeDefaultLocaleRoute\<close> is true, or always when false and this is the default
  locale": the locale whose code is the default locale's, whatever the flag.
\<close>

definition isLocaleDefaultSpec :: "string + Locale \<Rightarrow> Locale \<Rightarrow> bool \<Rightarrow> bool" where
  "isLocaleDefaultSpec locale dl include = (localeCodeOf locale = code dl)"

text \<open>
  Modelled from the spec: a second reading of \<^verbatim>\<open>isLocaleDefault\<close>. The spec also calls the
  rule "an \<^verbatim>\<open>isLocaleDefault\<close> predicate combined with \<^verbatim>\<open>includeDefaultLocaleRoute\<close>", and
  says that with the flag set the default locale receives a locale-prefixed route of its
  own: under this reading the default locale is handled in place only while the flag is
  off.
\<close>

definition isLocaleDefaultFlagged :: "string + Locale \<Rightarrow> Locale \<Rightarrow> bool \<Rightarrow> bool" where
  "isLocaleDefaultFlagged locale dl include = (localeCodeOf locale = code dl \<and> \<not> include)"

text \<open>
  Modelled from the spec: \<^verbatim>\<open>isPageRedirectOnly\<close> of \<^verbatim>\<open>./utils\<close>, which is not among the
  sources: "a page with no file and no children and a \<^verbatim>\<open>redirect\<close> property".
\<close>

definition isPageRedirectOnlySpec :: "NuxtPage \<Rightarrow> bool" where
  "isPageRedirectOnlySpec page =
     (pageFile page = None \<and> childrenOrEmpty page = [] \<and> redirect page \<noteq> None)"

text \<open>
  Modelled from the spec: \<^verbatim>\<open>buildRouteName\<close> of \<^verbatim>\<open>./utils\<close>, which is not among the
  sources. The name of a custom sibling "is \<^verbatim>\<open>localized-{name}-{locale}\<close>", that of the
  grouped route "is derived from the first code in the set", \<^verbatim>\<open>localized-about-fr\<close> for
  the page \<^verbatim>\<open>about\<close> and the codes \<^verbatim>\<open>['fr']\<close>. An \<^verbatim>\<open>undefined\<close> code is printed as a
  template literal prints it.
\<close>

definition buildRouteNameSpec :: "string \<Rightarrow> string option \<Rightarrow> bool \<Rightarrow> string" where
  "buildRouteNameSpec baseName localeCode isCustom =
     ''localized-'' @ baseName @ ''-''
       @ (case localeCode of None \<Rightarrow> ''undefined'' | Some c \<Rightarrow> c)"

text \<open>
  Modelled from the spec: \<^verbatim>\<open>shouldAddLocalePrefix\<close> of \<^verbatim>\<open>./utils\<close>, which is not among the
  sources: the "prefix is added when the locale is not the default locale, OR the locale
  is the default locale and (\<^verbatim>\<open>includeDefaultLocaleRoute\<close> is true OR \<^verbatim>\<open>forcePrefix\<close> is
  true)".
\<close>

definition shouldAddLocalePrefixSpec :: "string \<Rightarrow> Locale \<Rightarrow> bool \<Rightarrow> bool \<Rightarrow> bool" where
  "shouldAddLocalePrefixSpec locale dl forcePrefix include =
     (locale \<noteq> code dl \<or> (locale = code dl \<and> (include \<or> forcePrefix)))"

text \<open>
  Modelled from the spec: \<^verbatim>\<open>buildFullPath\<close> of \<^verbatim>\<open>./utils\<close>, which is not among the sources.
  It composes a locale-prefixed path; for an array of codes, "a single path segment that
  matches any of the N codes at the position where a literal code would otherwise appear,
  followed by the unprefixed relative path". The spec gives \<^verbatim>\<open>/fr/about\<close> for the codes
  \<^verbatim>\<open>['fr']\<close> and does not fix how the alternation is written; it is written
  \<^verbatim>\<open>(en|fr)\<close> here.
\<close>

definition buildFullPathSpec :: "string + string list \<Rightarrow> string \<Rightarrow> string" where
  "buildFullPathSpec locale basePath =
     (let segment = (case locale of
                       Inl c \<Rightarrow> c
                     | Inr [c] \<Rightarrow> c
                     | Inr cs \<Rightarrow> ''('' @ joinWith ''|'' cs @ '')'')
      in normalizePathSpec (''/'' @ segment @ ''/'' @ basePath))"

text \<open>
  Modelled from the spec: \<^verbatim>\<open>removeLeadingSlash\<close> of \<^verbatim>\<open>./utils\<close>, which is not among the
  sources. The spec says nothing about it beyond a child's path being relative to its
  parent; it drops one leading separator, as it is named.
\<close>

definition removeLeadingSlashSpec :: "string \<Rightarrow> string" where
  "removeLeadingSlashSpec p = (case p of [] \<Rightarrow> [] | c # rest \<Rightarrow> if c = CHR ''/'' then rest else p)"

text \<open>
  A project directory \<^verbatim>\<open>/app\<close> whose only page file is \<^verbatim>\<open>pages/about.vue\<close>, and a page-config
  extractor that finds \<^verbatim>\<open>localeRoutes: { fr: '/embedded-fr', en: '/embedded-en' }\<close> in it.
  Reading any other file throws.
\<close>

definition sampleReadFileSync :: "string \<Rightarrow> error + string" where
  "sampleReadFileSync filePath =
     (if filePath = ''/app/pages/about.vue'' then Inr ''defineI18nRoute(...)''
      else Inl (FileError filePath))"

definition sampleExtract :: "string \<Rightarrow> string \<Rightarrow> error + I18nRouteConfig option" where
  "sampleExtract fileContent filePath =
     (if fileContent = ''defineI18nRoute(...)''
      then Inr (Some \<lparr> localeRoutes =
                         Some [''fr'' \<mapsto> ''/embedded-fr'', ''en'' \<mapsto> ''/embedded-en''] \<rparr>)
      else Inr None)"

definition specDeps :: deps where
  "specDeps = \<lparr> path_join = posixJoin,
                path_resolve = posixResolve,
                readFileSync = sampleReadFileSync,
                extractDefineI18nRouteConfig = sampleExtract,
                normalizePath = normalizePathSpec,
                isLocaleDefault = isLocaleDefaultSpec,
                isPageRedirectOnly = isPageRedirectOnlySpec,
                buildRouteName = buildRouteNameSpec,
                shouldAddLocalePrefix = shouldAddLocalePrefixSpec,
                buildFullPath = buildFullPathSpec,
                removeLeadingSlash = removeLeadingSlashSpec \<rparr>"

definition flaggedDeps :: deps where
  "flaggedDeps = specDeps \<lparr> isLocaleDefault := isLocaleDefaultFlagged \<rparr>"

subsection \<open>Sample configurations\<close>

definition localeEn :: Locale where
  "localeEn = \<lparr> code = ''en'', meta = [] \<rparr>"

definition localeFr :: Locale where
  "localeFr = \<lparr> code = ''fr'', meta = [] \<rparr>"

definition pageAbout :: NuxtPage where
  "pageAbout = NuxtPage (Some ''about'') ''/about'' None None None"

text \<open>Locales \<^verbatim>\<open>en\<close> and \<^verbatim>\<open>fr\<close>, default \<^verbatim>\<open>en\<close>, no default-locale route, no overrides.\<close>

definition plainManager :: PageManager where
  "plainManager = newPageManager [localeEn, localeFr] ''en'' False None"



text \<open>
  A page \<^verbatim>\<open>about\<close> with a page file (the one of the sample directory, which holds embedded
  \<^verbatim>\<open>localeRoutes\<close>) and one child.
\<close>

definition pageAboutFile :: NuxtPage where
  "pageAboutFile = NuxtPage (Some ''about'') ''/about'' (Some ''pages/about.vue'') None
     (Some [NuxtPage (Some ''about-team'') ''team'' None None None])"

definition embeddedPaths :: pathIndex where
  "embeddedPaths = [''/about'' \<mapsto> [''fr'' \<mapsto> ''/embedded-fr'', ''en'' \<mapsto> ''/embedded-en'']]"



section \<open>Notions used in the proofs\<close>

text \<open>
  A custom path as the code reads it: every read of \<^verbatim>\<open>localizedPaths\<close> tests the entry for
  truthiness, so an empty string counts as no entry. Two page managers have the same custom
  paths when they differ at most in entries that are empty strings.
\<close>

definition nonEmptyPath :: "string option \<Rightarrow> string option" where
  "nonEmptyPath v = (case v of None \<Rightarrow> None | Some s \<Rightarrow> if s = [] then None else Some s)"

definition sameCustomPaths :: "PageManager \<Rightarrow> PageManager \<Rightarrow> bool" where
  "sameCustomPaths pm1 pm2 =
     (locales pm2 = locales pm1 \<and> defaultLocale pm2 = defaultLocale pm1
      \<and> includeDefaultLocaleRoute pm2 = includeDefaultLocaleRoute pm1
      \<and> activeLocaleCodes pm2 = activeLocaleCodes pm1
      \<and> (\<forall>k c. nonEmptyPath (lookupPath (localizedPaths pm2) k c)
                 = nonEmptyPath (lookupPath (localizedPaths pm1) k c)))"

text \<open>
  The nodes of a route tree in the order in which \<^verbatim>\<open>extractLocalizedPaths\<close> visits them,
  each with its normalized full path, the key under which the indexer records it.
\<close>

function nodesOf :: "deps \<Rightarrow> string \<Rightarrow> NuxtPage list \<Rightarrow> (string \<times> NuxtPage) list"
  and nodesUnder :: "deps \<Rightarrow> string \<Rightarrow> NuxtPage \<Rightarrow> (string \<times> NuxtPage) list"
where
  "nodesOf d parentPath [] = []"
| "nodesOf d parentPath (page # rest) = nodesUnder d parentPath page @ nodesOf d parentPath rest"
| "nodesUnder d parentPath page =
     (let fullPath = normalizePath d (path_join d parentPath (path page))
      in (fullPath, page) # nodesOf d fullPath (childrenOrEmpty page))"
  by pat_completeness auto
termination
  by (relation "measure (\<lambda>x. case x of
         Inl (d, parentPath, pages) \<Rightarrow> 2 * size_list size pages
       | Inr (d, parentPath, page) \<Rightarrow> 2 * size page)")
     (auto simp: size_childrenOrEmpty)

text \<open>
  The override \<^verbatim>\<open>{ about: { fr: '/a-propos' } }\<close>; and the overrides
  \<^verbatim>\<open>{ about: { en: '/uber-uns', fr: '/a-propos' } }\<close> with \<^verbatim>\<open>includeDefaultLocaleRoute\<close> set.
\<close>

definition prefixedManager :: PageManager where
  "prefixedManager = newPageManager [localeEn, localeFr] ''en'' True
     (Some [''about'' \<mapsto> LocalePaths [''en'' \<mapsto> ''/uber-uns'', ''fr'' \<mapsto> ''/a-propos'']])"


definition aboutManager :: PageManager where
  "aboutManager = newPageManager [localeEn, localeFr] ''en'' False
     (Some [''about'' \<mapsto> LocalePaths [''fr'' \<mapsto> ''/a-propos'']])"

text \<open>The names of the routes that are appended for a page, mode by mode.\<close>

definition appendedNames :: "deps \<Rightarrow> PageManager \<Rightarrow> NuxtPage \<Rightarrow> string option list" where
  "appendedNames d pm page =
     (case globalLocaleRoutes pm (nameOrEmpty page) of
        Some (Flag False) \<Rightarrow> []
      | Some (LocalePaths g) \<Rightarrow>
          map (\<lambda>l. Some (buildRouteName d (nameOrEmpty page) (Some (code l)) True))
            (filter (\<lambda>l. truthy (g (code l))
                          \<and> \<not> isLocaleDefault d (Inr l) (defaultLocale pm)
                                (includeDefaultLocaleRoute pm)) (locales pm))
      | _ \<Rightarrow>
          if isPageRedirectOnly d page then []
          else
            (case filterLocaleCodesWithoutCustomPaths pm (normalizePath d (path page)) of
               [] \<Rightarrow> []
             | c # _ \<Rightarrow> [Some (buildRouteName d (nameOrEmpty page) (Some c) False)])
            @ map (\<lambda>l. Some (buildRouteName d (nameOrEmpty page) (Some (code l)) True))
                (filter (\<lambda>l. truthy (lookupPath (localizedPaths pm)
                                         (normalizePath d (path page)) (code l))
                              \<and> \<not> isLocaleDefault d (Inr l) (defaultLocale pm)
                                    (includeDefaultLocaleRoute pm)) (locales pm)))"

text \<open>
  Two parent routes as Nuxt builds them for \<^verbatim>\<open>docs.vue\<close> with \<^verbatim>\<open>docs/index.vue\<close> and for
  \<^verbatim>\<open>blog.vue\<close> with \<^verbatim>\<open>blog/index.vue\<close>: the parents have no name, the index children carry it.
\<close>

definition pageDocs :: NuxtPage where
  "pageDocs = NuxtPage None ''/docs'' None None (Some [NuxtPage (Some ''docs'') [] None None None])"

definition pageBlog :: NuxtPage where
  "pageBlog = NuxtPage None ''/blog'' None None (Some [NuxtPage (Some ''blog'') [] None None None])"



section \<open>The loop over the pages\<close>

text \<open>
  The loops push to \<^verbatim>\<open>additionalRoutes\<close> and never read it: what a page contributes does
  not depend on what is in the array already.
\<close>


lemma addCustomGlobalLocalizedRoute_acc:
  "addCustomGlobalLocalizedRoute d pm g l (page, add) =
     (fst (addCustomGlobalLocalizedRoute d pm g l (page, [])),
      add @ snd (addCustomGlobalLocalizedRoute d pm g l (page, [])))"
  by (simp add: addCustomGlobalLocalizedRoute_def split: option.splits)

lemma fold_addCustomGlobalLocalizedRoute_acc:
  "fold (addCustomGlobalLocalizedRoute d pm g) ls (page, add) =
     (fst (fold (addCustomGlobalLocalizedRoute d pm g) ls (page, [])),
      add @ snd (fold (addCustomGlobalLocalizedRoute d pm g) ls (page, [])))"
proof (induction ls arbitrary: page add)
  case Nil
  show ?case by simp
next
  case (Cons l ls)
  obtain p1 n1 where step: "addCustomGlobalLocalizedRoute d pm g l (page, []) = (p1, n1)"
    by (cases "addCustomGlobalLocalizedRoute d pm g l (page, [])")
  have step': "addCustomGlobalLocalizedRoute d pm g l (page, add) = (p1, add @ n1)"
    using addCustomGlobalLocalizedRoute_acc [of d pm g l page add] step by simp
  show ?case
    using Cons.IH [of p1 "add @ n1"] Cons.IH [of p1 n1] step step' by simp
qed

lemma addCustomLocalizedRoute_acc:
  "addCustomLocalizedRoute d pm k oc l (page, add) =
     (fst (addCustomLocalizedRoute d pm k oc l (page, [])),
      add @ snd (addCustomLocalizedRoute d pm k oc l (page, [])))"
  by (simp add: addCustomLocalizedRoute_def split: option.splits)

lemma fold_addCustomLocalizedRoute_acc:
  "fold (addCustomLocalizedRoute d pm k oc) ls (page, add) =
     (fst (fold (addCustomLocalizedRoute d pm k oc) ls (page, [])),
      add @ snd (fold (addCustomLocalizedRoute d pm k oc) ls (page, [])))"
proof (induction ls arbitrary: page add)
  case Nil
  show ?case by simp
next
  case (Cons l ls)
  obtain p1 n1 where step: "addCustomLocalizedRoute d pm k oc l (page, []) = (p1, n1)"
    by (cases "addCustomLocalizedRoute d pm k oc l (page, [])")
  have step': "addCustomLocalizedRoute d pm k oc l (page, add) = (p1, add @ n1)"
    using addCustomLocalizedRoute_acc [of d pm k oc l page add] step by simp
  show ?case
    using Cons.IH [of p1 "add @ n1"] Cons.IH [of p1 n1] step step' by simp
qed

lemma localizePage_acc:
  "localizePage d pm page add =
     (fst (localizePage d pm page []), add @ snd (localizePage d pm page []))"
proof (cases "isPageRedirectOnly d page")
  case True
  then show ?thesis by (simp add: localizePage_def)
next
  case False
  let ?k = "normalizePath d (path page)"
  let ?oc = "cloneArray (childrenOrEmpty page)"
  let ?g = "if filterLocaleCodesWithoutCustomPaths pm ?k \<noteq> []
            then [createLocalizedRoute d pm page (filterLocaleCodesWithoutCustomPaths pm ?k) ?oc False []]
            else []"
  have a: "addCustomLocalizedRoutes d pm page ?k ?oc (add @ ?g) =
      (fst (addCustomLocalizedRoutes d pm page ?k ?oc []),
       add @ ?g @ snd (addCustomLocalizedRoutes d pm page ?k ?oc []))"
    unfolding addCustomLocalizedRoutes_def
    using fold_addCustomLocalizedRoute_acc [of d pm ?k ?oc "locales pm" page "add @ ?g"]
    by simp
  have b: "addCustomLocalizedRoutes d pm page ?k ?oc ?g =
      (fst (addCustomLocalizedRoutes d pm page ?k ?oc []),
       ?g @ snd (addCustomLocalizedRoutes d pm page ?k ?oc []))"
    unfolding addCustomLocalizedRoutes_def
    using fold_addCustomLocalizedRoute_acc [of d pm ?k ?oc "locales pm" page ?g]
    by simp
  show ?thesis
  proof (cases "filterLocaleCodesWithoutCustomPaths pm ?k = []")
    case True
    with False a b show ?thesis by (simp add: localizePage_def Let_def case_prod_unfold)
  next
    case nonempty: False
    with False a b show ?thesis by (simp add: localizePage_def Let_def case_prod_unfold)
  qed
qed

lemma extendPage_acc:
  "extendPage d pm page add =
     (fst (extendPage d pm page []), add @ snd (extendPage d pm page []))"
proof (cases "globalLocaleRoutes pm (nameOrEmpty page)")
  case None
  then show ?thesis
    using localizePage_acc [of d pm page add] by (simp add: extendPage_def)
next
  case (Some entry)
  show ?thesis
  proof (cases entry)
    case (Flag b)
    with Some show ?thesis
      using localizePage_acc [of d pm page add] by (cases b) (simp_all add: extendPage_def)
  next
    case (LocalePaths g)
    with Some show ?thesis
      using fold_addCustomGlobalLocalizedRoute_acc [of d pm g "locales pm" page add]
      by (simp add: extendPage_def addCustomGlobalLocalizedRoutes_def)
  qed
qed

lemma extendEach_eq:
  "extendEach d pm pages add =
     (map (mutatedPage d pm) pages, add @ concat (map (appendedRoutes d pm) pages))"
proof (induction pages arbitrary: add)
  case Nil
  show ?case by simp
next
  case (Cons page rest)
  have "extendPage d pm page add = (mutatedPage d pm page, add @ appendedRoutes d pm page)"
    using extendPage_acc [of d pm page add] by (simp add: mutatedPage_def appendedRoutes_def)
  then show ?case using Cons.IH [of "add @ appendedRoutes d pm page"] by simp
qed

lemma extendPages_eq:
  assumes "extendPages d pm pages rootDir = Inr (pm', out)"
  shows "\<exists>paths. extractLocalizedPaths d pm pages rootDir [] = Inr paths
           \<and> pm' = pm \<lparr> localizedPaths := paths \<rparr>
           \<and> out = map (mutatedPage d pm') pages @ concat (map (appendedRoutes d pm') pages)"
  using assms
  by (auto simp: extendPages_def Let_def extendEach_eq split: sum.splits)


section \<open>Running the model\<close>

text \<open>The defining equations that unfold a run on concrete pages.\<close>

lemmas model_defs =
  extendPages_def extendPage_def localizePage_def adjustRouteForDefaultLocale_def
  addCustomLocalizedRoutes_def addCustomLocalizedRoute_def addCustomGlobalLocalizedRoutes_def
  addCustomGlobalLocalizedRoute_def filterLocaleCodesWithoutCustomPaths_def
  mergeLocalizedChild_def mergeChildren_def createLocalizedRoute_def createLocalizedChildRoute_def
  buildRoutePath_def buildLocalizedRouteName_def buildLocalizedRoutePath_def
  extractFromFile_def newPageManager_def computeActiveLocaleCodes_def findLocaleByCode_def
  cloneArray_def objectAssign_def setPath_def setChildren_def firstCode_def lookupPath_def
  childrenOrEmpty_def nameOrEmpty_def truthy_def mutatedPage_def appendedRoutes_def

lemmas spec_defs =
  specDeps_def sampleExtract_def sampleReadFileSync_def
  removeLeadingSlashSpec_def buildFullPathSpec_def shouldAddLocalePrefixSpec_def
  buildRouteNameSpec_def isPageRedirectOnlySpec_def
  isLocaleDefaultSpec_def localeCodeOf_def normalizePathSpec_def posixResolve_def
  posixJoin_def posixNormalize_def startsWithSlash_def endsWithSlash_def

lemmas sample_defs = localeEn_def localeFr_def pageAbout_def plainManager_def


lemma embedded_run:
  "extendPages specDeps plainManager [pageAboutFile] ''/app'' =
     Inr (plainManager \<lparr> localizedPaths := embeddedPaths \<rparr>,
          [NuxtPage (Some ''about'') ''/embedded-en'' (Some ''pages/about.vue'') None
             (Some [NuxtPage (Some ''about-team'') ''team'' None None (Some [])]),
           NuxtPage (Some ''localized-about-fr'') ''/fr/embedded-fr'' (Some ''pages/about.vue'') None
             (Some [NuxtPage (Some ''localized-about-team-fr'') ''fr/team'' None None (Some [])])])"
  by (simp add: model_defs spec_defs sample_defs pageAboutFile_def embeddedPaths_def Let_def)

section \<open>What the in-place steps leave alone\<close>

lemma setPath_fields [simp]:
  "name (setPath page v) = name page" "path (setPath page v) = v"
  "pageFile (setPath page v) = pageFile page" "redirect (setPath page v) = redirect page"
  "children (setPath page v) = children page"
  by (simp_all add: setPath_def)

lemma setChildren_fields [simp]:
  "name (setChildren page v) = name page" "path (setChildren page v) = path page"
  "pageFile (setChildren page v) = pageFile page" "redirect (setChildren page v) = redirect page"
  "children (setChildren page v) = Some v"
  by (simp_all add: setChildren_def)

lemma childrenOrEmpty_setPath [simp]: "childrenOrEmpty (setPath page v) = childrenOrEmpty page"
  by (simp add: childrenOrEmpty_def)

lemma childrenOrEmpty_setChildren [simp]: "childrenOrEmpty (setChildren page v) = v"
  by (simp add: childrenOrEmpty_def)

lemma nameOrEmpty_setPath [simp]: "nameOrEmpty (setPath page v) = nameOrEmpty page"
  by (simp add: nameOrEmpty_def)

lemma childrenMapGet_Some:
  "childrenMapGet cs key = Some i \<Longrightarrow> i < length cs \<and> name (cs ! i) = key"
proof (induction cs arbitrary: i)
  case Nil
  then show ?case by simp
next
  case (Cons child rest)
  show ?case
  proof (cases "childrenMapGet rest key")
    case None
    with Cons.prems show ?thesis by (auto split: if_splits)
  next
    case (Some j)
    with Cons.prems Cons.IH [of j] show ?thesis by auto
  qed
qed

lemma name_objectAssign:
  "name source = name target \<Longrightarrow> name (objectAssign target source) = name target"
  by (simp add: objectAssign_def split: option.splits)

lemma mergeLocalizedChild_names:
  assumes "length initial \<le> length cur"
    and "map name (take (length initial) cur) = map name initial"
  shows "length initial \<le> length (mergeLocalizedChild initial lc cur)
         \<and> map name (take (length initial) (mergeLocalizedChild initial lc cur)) = map name initial"
proof (cases "childrenMapGet initial (name lc)")
  case None
  with assms show ?thesis by (simp add: mergeLocalizedChild_def)
next
  case (Some i)
  from childrenMapGet_Some [OF Some] have i: "i < length initial"
    and key: "name (initial ! i) = name lc" by simp_all
  from assms i have "name (cur ! i) = name (initial ! i)"
    by (metis length_map nth_map nth_take length_take min.absorb2 order_less_le_trans)
  with key have same: "name (objectAssign (cur ! i) lc) = name (cur ! i)"
    by (simp add: name_objectAssign)
  have "i < length cur" using i assms(1) by simp
  then have "(map name cur)[i := name (cur ! i)] = map name cur"
    by (metis length_map list_update_id nth_map)
  then have "map name (cur[i := objectAssign (cur ! i) lc]) = map name cur"
    using same by (simp add: map_update)
  then have "map name (take (length initial) (cur[i := objectAssign (cur ! i) lc]))
             = map name (take (length initial) cur)"
    by (metis take_map)
  with assms Some show ?thesis by (simp add: mergeLocalizedChild_def)
qed

lemma fold_mergeLocalizedChild_names:
  assumes "length initial \<le> length cur"
    and "map name (take (length initial) cur) = map name initial"
  shows "length initial \<le> length (fold (mergeLocalizedChild initial) lcs cur)
         \<and> map name (take (length initial) (fold (mergeLocalizedChild initial) lcs cur))
             = map name initial"
  using assms
proof (induction lcs arbitrary: cur)
  case Nil
  then show ?case by simp
next
  case (Cons lc lcs)
  from mergeLocalizedChild_names [OF Cons.prems, of lc]
  show ?case using Cons.IH [of "mergeLocalizedChild initial lc cur"] by simp
qed

lemma adjustRouteForDefaultLocale_fields:
  "name (adjustRouteForDefaultLocale d pm page oc) = name page"
  "pageFile (adjustRouteForDefaultLocale d pm page oc) = pageFile page"
  "redirect (adjustRouteForDefaultLocale d pm page oc) = redirect page"
  by (simp_all add: adjustRouteForDefaultLocale_def Let_def split: option.splits)

lemma adjustRouteForDefaultLocale_children_names:
  "map name (take (length (childrenOrEmpty page))
               (childrenOrEmpty (adjustRouteForDefaultLocale d pm page oc)))
   = map name (childrenOrEmpty page)"
proof -
  let ?cur = "childrenOrEmpty page"
  have "map name (take (length ?cur) (fold (mergeLocalizedChild ?cur) lcs ?cur)) = map name ?cur"
    for lcs
    using fold_mergeLocalizedChild_names [of ?cur ?cur lcs] by simp
  then show ?thesis
    by (simp add: adjustRouteForDefaultLocale_def Let_def split: option.splits)
qed

lemma addCustomLocalizedRoute_fields:
  "addCustomLocalizedRoute d pm k oc l (page, add) = (page', add') \<Longrightarrow>
     name page' = name page \<and> path page' = path page \<and> pageFile page' = pageFile page
     \<and> redirect page' = redirect page"
  by (auto simp: addCustomLocalizedRoute_def split: option.splits if_splits)

lemma fold_addCustomLocalizedRoute_fields:
  "fold (addCustomLocalizedRoute d pm k oc) ls (page, add) = (page', add') \<Longrightarrow>
     name page' = name page \<and> path page' = path page \<and> pageFile page' = pageFile page
     \<and> redirect page' = redirect page"
proof (induction ls arbitrary: page add)
  case Nil
  then show ?case by simp
next
  case (Cons l ls)
  obtain p1 a1 where step: "addCustomLocalizedRoute d pm k oc l (page, add) = (p1, a1)"
    by (cases "addCustomLocalizedRoute d pm k oc l (page, add)")
  from Cons.prems step have "fold (addCustomLocalizedRoute d pm k oc) ls (p1, a1) = (page', add')"
    by simp
  from Cons.IH [OF this] addCustomLocalizedRoute_fields [OF step] show ?case by simp
qed

lemma addCustomGlobalLocalizedRoute_fields:
  "addCustomGlobalLocalizedRoute d pm g l (page, add) = (page', add') \<Longrightarrow>
     name page' = name page \<and> children page' = children page \<and> pageFile page' = pageFile page
     \<and> redirect page' = redirect page"
  by (auto simp: addCustomGlobalLocalizedRoute_def split: option.splits if_splits)

lemma fold_addCustomGlobalLocalizedRoute_fields:
  "fold (addCustomGlobalLocalizedRoute d pm g) ls (page, add) = (page', add') \<Longrightarrow>
     name page' = name page \<and> children page' = children page \<and> pageFile page' = pageFile page
     \<and> redirect page' = redirect page"
proof (induction ls arbitrary: page add)
  case Nil
  then show ?case by simp
next
  case (Cons l ls)
  obtain p1 a1 where step: "addCustomGlobalLocalizedRoute d pm g l (page, add) = (p1, a1)"
    by (cases "addCustomGlobalLocalizedRoute d pm g l (page, add)")
  from Cons.prems step
  have "fold (addCustomGlobalLocalizedRoute d pm g) ls (p1, a1) = (page', add')"
    by simp
  from Cons.IH [OF this] addCustomGlobalLocalizedRoute_fields [OF step] show ?case by simp
qed

lemma localizePage_fields:
  "name (fst (localizePage d pm page add)) = name page
   \<and> pageFile (fst (localizePage d pm page add)) = pageFile page
   \<and> redirect (fst (localizePage d pm page add)) = redirect page"
proof (cases "isPageRedirectOnly d page")
  case True
  then show ?thesis by (simp add: localizePage_def)
next
  case False
  let ?k = "normalizePath d (path page)"
  let ?oc = "cloneArray (childrenOrEmpty page)"
  let ?a1 = "if filterLocaleCodesWithoutCustomPaths pm ?k \<noteq> []
             then add @ [createLocalizedRoute d pm page (filterLocaleCodesWithoutCustomPaths pm ?k)
                           ?oc False []]
             else add"
  obtain p1 a2 where custom: "addCustomLocalizedRoutes d pm page ?k ?oc ?a1 = (p1, a2)"
    by (cases "addCustomLocalizedRoutes d pm page ?k ?oc ?a1")
  then have "name p1 = name page \<and> path p1 = path page \<and> pageFile p1 = pageFile page
     \<and> redirect p1 = redirect page"
    using fold_addCustomLocalizedRoute_fields [of d pm ?k ?oc "locales pm" page ?a1 p1 a2]
    by (simp add: addCustomLocalizedRoutes_def)
  moreover have "fst (localizePage d pm page add) = adjustRouteForDefaultLocale d pm p1 ?oc"
    using False custom by (simp add: localizePage_def Let_def)
  ultimately show ?thesis by (simp add: adjustRouteForDefaultLocale_fields)
qed

lemma extendPage_fields:
  "name (fst (extendPage d pm page add)) = name page
   \<and> pageFile (fst (extendPage d pm page add)) = pageFile page
   \<and> redirect (fst (extendPage d pm page add)) = redirect page"
proof (cases "globalLocaleRoutes pm (nameOrEmpty page)")
  case None
  then show ?thesis using localizePage_fields [of d pm page add] by (simp add: extendPage_def)
next
  case (Some entry)
  show ?thesis
  proof (cases entry)
    case (Flag b)
    with Some show ?thesis
      using localizePage_fields [of d pm page add] by (cases b) (simp_all add: extendPage_def)
  next
    case (LocalePaths g)
    obtain p1 a1 where r: "fold (addCustomGlobalLocalizedRoute d pm g) (locales pm) (page, add) = (p1, a1)"
      by (cases "fold (addCustomGlobalLocalizedRoute d pm g) (locales pm) (page, add)")
    from fold_addCustomGlobalLocalizedRoute_fields [OF r] r Some LocalePaths show ?thesis
      by (simp add: extendPage_def addCustomGlobalLocalizedRoutes_def)
  qed
qed

section \<open>C8: an unknown default locale code\<close>

text \<open>
  C8. When the default locale code is the code of none of the configured locales, the
  constructor does not fail (it has no failing branch: it returns a page manager), and
  \<^verbatim>\<open>defaultLocale\<close> is the synthetic locale that has this code and nothing else. All the
  configured locales are then active.
\<close>

theorem newPageManager_unknown_default:
  assumes "\<forall>locale \<in> set ls. code locale \<noteq> c"
  shows "defaultLocale (newPageManager ls c include routes) = \<lparr> code = c, meta = [] \<rparr>
         \<and> locales (newPageManager ls c include routes) = ls
         \<and> activeLocaleCodes (newPageManager ls c include routes) = map code ls"
proof -
  have "find (\<lambda>locale. code locale = c) ls = None"
    using assms by (simp add: find_None_iff)
  moreover have "filter (\<lambda>locale. code locale \<noteq> c \<or> include) ls = ls"
    using assms by (simp add: filter_id_conv)
  ultimately show ?thesis
    by (simp add: newPageManager_def findLocaleByCode_def computeActiveLocaleCodes_def Let_def)
qed

theorem newPageManager_unknown_default_witness:
  "map code [localeEn, localeFr] = [''en'', ''fr'']
   \<and> defaultLocale (newPageManager [localeEn, localeFr] ''de'' False None)
       = \<lparr> code = ''de'', meta = [] \<rparr>
   \<and> activeLocaleCodes (newPageManager [localeEn, localeFr] ''de'' False None) = [''en'', ''fr'']"
proof -
  have h: "\<forall>locale \<in> set [localeEn, localeFr]. code locale \<noteq> ''de''"
    by (simp add: localeEn_def localeFr_def)
  show ?thesis
    using newPageManager_unknown_default [OF h, of False None]
    by (simp add: localeEn_def localeFr_def)
qed

section \<open>C1: the number of routes appended in default mode\<close>

lemma addCustomLocalizedRoute_no_custom:
  assumes "\<not> truthy (lookupPath (localizedPaths pm) k (code l))"
  shows "addCustomLocalizedRoute d pm k oc l st = st"
  using assms
  by (cases st) (auto simp: addCustomLocalizedRoute_def truthy_def split: option.splits)

lemma addCustomLocalizedRoutes_no_custom:
  assumes "\<forall>c. \<not> truthy (lookupPath (localizedPaths pm) k c)"
  shows "addCustomLocalizedRoutes d pm page k oc add = (page, add)"
proof -
  have "fold (addCustomLocalizedRoute d pm k oc) ls st = st" for ls st
    by (induction ls arbitrary: st) (simp_all add: addCustomLocalizedRoute_no_custom assms)
  then show ?thesis by (simp add: addCustomLocalizedRoutes_def)
qed

lemma localizePage_no_custom:
  assumes "\<not> isPageRedirectOnly d page"
    and "\<forall>c. \<not> truthy (lookupPath (localizedPaths pm) (normalizePath d (path page)) c)"
  shows "localizePage d pm page add =
     (adjustRouteForDefaultLocale d pm page (childrenOrEmpty page),
      add @ (if activeLocaleCodes pm = [] then []
             else [createLocalizedRoute d pm page (activeLocaleCodes pm)
                     (childrenOrEmpty page) False []]))"
proof -
  have "filterLocaleCodesWithoutCustomPaths pm (normalizePath d (path page)) = activeLocaleCodes pm"
    using assms(2) by (simp add: filterLocaleCodesWithoutCustomPaths_def)
  then show ?thesis
    using assms
    by (simp add: localizePage_def Let_def cloneArray_def addCustomLocalizedRoutes_no_custom)
qed



section \<open>C4: a page excluded by \<^verbatim>\<open>false\<close>\<close>

text \<open>
  The entry of \<^verbatim>\<open>globalLocaleRoutes\<close> is read for the pages of the array only. A child is
  localized with its parent, whatever the entry for its own name: the grouped route that is
  appended for the parent holds a copy of the child for every active locale, and the child
  itself is overwritten by its copy for the default locale.
\<close>

lemma nested_page_is_localized:
  assumes kids: "children page = Some [child]"
    and named: "name child = Some n"
    and mode: "globalLocaleRoutes pm (nameOrEmpty page) = None
               \<or> globalLocaleRoutes pm (nameOrEmpty page) = Some (Flag True)"
    and live: "\<not> isPageRedirectOnly d page"
    and nocustom: "\<forall>c. \<not> truthy (lookupPath (localizedPaths pm) (normalizePath d (path page)) c)"
    and active: "activeLocaleCodes pm \<noteq> []"
  shows "\<exists>r. appendedRoutes d pm page = [r]
              \<and> map name (childrenOrEmpty r)
                  = map (\<lambda>c. Some (buildLocalizedRouteName d pm n c True)) (activeLocaleCodes pm)"
    and "\<exists>child' cs. children (mutatedPage d pm page) = Some [child']
              \<and> name child' = Some n \<and> children child' = Some cs"
proof -
  have ext: "extendPage d pm page [] = localizePage d pm page []"
    using mode by (auto simp: extendPage_def)
  have loc: "localizePage d pm page [] =
     (adjustRouteForDefaultLocale d pm page (childrenOrEmpty page),
      [createLocalizedRoute d pm page (activeLocaleCodes pm) (childrenOrEmpty page) False []])"
    using localizePage_no_custom [OF live nocustom, of "[]"] active by simp
  have ce: "childrenOrEmpty page = [child]" using kids by (simp add: childrenOrEmpty_def)
  have ne: "nameOrEmpty child = n" using named by (simp add: nameOrEmpty_def)
  show "\<exists>r. appendedRoutes d pm page = [r]
              \<and> map name (childrenOrEmpty r)
                  = map (\<lambda>c. Some (buildLocalizedRouteName d pm n c True)) (activeLocaleCodes pm)"
    using ext loc ce ne
    by (simp add: appendedRoutes_def createLocalizedRoute_def createLocalizedChildRoute_def
          childrenOrEmpty_def Let_def comp_def)
  have get: "childrenMapGet [child] (Some n) = Some 0" "childrenMapGet [child] (name child) = Some 0"
    using named by simp_all
  show "\<exists>child' cs. children (mutatedPage d pm page) = Some [child']
              \<and> name child' = Some n \<and> children child' = Some cs"
    using ext loc ce ne named get
    by (simp add: mutatedPage_def adjustRouteForDefaultLocale_def mergeChildren_def
          mergeLocalizedChild_def createLocalizedChildRoute_def buildLocalizedRouteName_def
          objectAssign_def Let_def split: option.splits)
qed




section \<open>C5: the node mutated in place keeps its name\<close>

text \<open>
  C5. After a run of \<^verbatim>\<open>extendPages\<close>, the node at each original position has the name it
  had before, for every list of locales, every value of \<^verbatim>\<open>includeDefaultLocaleRoute\<close> and
  every implementation of the prefix policy; its file and redirect are unchanged too, so
  only \<^verbatim>\<open>path\<close> and \<^verbatim>\<open>children\<close> can differ. \<^verbatim>\<open>adjustRouteForDefaultLocale\<close> itself keeps the
  name of the page, and the children that the page has when it is called keep their places
  and their names: the copies it merges into them are named without a suffix, by
  \<^verbatim>\<open>buildLocalizedRouteName\<close> with \<^verbatim>\<open>modifyName\<close> false.
\<close>

theorem default_locale_name_stability:
  assumes run: "extendPages d pm pages rootDir = Inr (pm', out)"
    and i: "i < length pages"
  shows "name (out ! i) = name (pages ! i)
   \<and> pageFile (out ! i) = pageFile (pages ! i)
   \<and> redirect (out ! i) = redirect (pages ! i)
   \<and> name (adjustRouteForDefaultLocale d pm' page originalChildren) = name page
   \<and> map name (take (length (childrenOrEmpty page))
                  (childrenOrEmpty (adjustRouteForDefaultLocale d pm' page originalChildren)))
       = map name (childrenOrEmpty page)
   \<and> buildLocalizedRouteName d pm' baseName c False = baseName"
proof -
  from extendPages_eq [OF run] have
    "out = map (mutatedPage d pm') pages @ concat (map (appendedRoutes d pm') pages)"
    by blast
  then have "out ! i = fst (extendPage d pm' (pages ! i) [])"
    using i by (simp add: nth_append mutatedPage_def)
  then show ?thesis
    using extendPage_fields [of d pm' "pages ! i" "[]"]
      adjustRouteForDefaultLocale_fields(1) [of d pm' page originalChildren]
      adjustRouteForDefaultLocale_children_names [of page d pm' originalChildren]
    by (simp add: buildLocalizedRouteName_def)
qed

theorem default_locale_name_stability_witness:
  "name ([pageAboutFile] ! 0) = Some ''about''
   \<and> path ([pageAboutFile] ! 0) = ''/about''
   \<and> name ([NuxtPage (Some ''about'') ''/embedded-en'' (Some ''pages/about.vue'') None
               (Some [NuxtPage (Some ''about-team'') ''team'' None None (Some [])]),
             NuxtPage (Some ''localized-about-fr'') ''/fr/embedded-fr'' (Some ''pages/about.vue'')
               None
               (Some [NuxtPage (Some ''localized-about-team-fr'') ''fr/team'' None None
                        (Some [])])] ! 0)
       = name ([pageAboutFile] ! 0)"
proof -
  have i: "0 < length [pageAboutFile]" by simp
  from default_locale_name_stability [OF embedded_run i] show ?thesis
    by (simp add: pageAboutFile_def)
qed

section \<open>C9: an empty string as a custom path\<close>

lemma sameCustomPaths_lookup:
  "sameCustomPaths pm1 pm2 \<Longrightarrow>
     nonEmptyPath (lookupPath (localizedPaths pm2) k c)
     = nonEmptyPath (lookupPath (localizedPaths pm1) k c)"
  by (simp add: sameCustomPaths_def)

lemma buildLocalizedRoutePath_nonEmpty:
  "buildLocalizedRoutePath d pm routePath locale (localizedPaths pm k) addLocalePrefix =
     (let basePath = (case nonEmptyPath (lookupPath (localizedPaths pm) k locale) of
                        None \<Rightarrow> routePath | Some s \<Rightarrow> s);
          normalizedBasePath = normalizePath d basePath
      in if shouldAddLocalePrefix d locale (defaultLocale pm) addLocalePrefix
              (includeDefaultLocaleRoute pm)
         then buildFullPath d (Inl locale) normalizedBasePath
         else normalizedBasePath)"
  by (simp add: buildLocalizedRoutePath_def nonEmptyPath_def lookupPath_def Let_def
           split: option.splits)

lemma buildLocalizedRoutePath_same:
  assumes "sameCustomPaths pm1 pm2"
  shows "buildLocalizedRoutePath d pm2 routePath locale (localizedPaths pm2 k) addLocalePrefix
         = buildLocalizedRoutePath d pm1 routePath locale (localizedPaths pm1 k) addLocalePrefix"
  using assms sameCustomPaths_lookup [OF assms, of k "locale"]
  by (simp add: buildLocalizedRoutePath_nonEmpty sameCustomPaths_def)

lemma createLocalizedChildRoute_same:
  assumes "sameCustomPaths pm1 pm2"
  shows "createLocalizedChildRoute d pm2 route routePath locale (localizedPaths pm2 k) cs
           modifyName addLocalePrefix
         = createLocalizedChildRoute d pm1 route routePath locale (localizedPaths pm1 k) cs
           modifyName addLocalePrefix"
  using assms buildLocalizedRoutePath_same [OF assms]
  by (simp add: createLocalizedChildRoute_def buildLocalizedRouteName_def sameCustomPaths_def)

lemma createLocalized_same:
  "sameCustomPaths pm1 pm2 \<Longrightarrow>
     createLocalizedChildren d pm2 routes parentPath localeCodes modifyName addLocalePrefix
     = createLocalizedChildren d pm1 routes parentPath localeCodes modifyName addLocalePrefix"
  "sameCustomPaths pm1 pm2 \<Longrightarrow>
     createLocalizedVariants d pm2 route parentPath localeCodes modifyName addLocalePrefix
     = createLocalizedVariants d pm1 route parentPath localeCodes modifyName addLocalePrefix"
proof (induction d pm1 routes parentPath localeCodes modifyName addLocalePrefix
         and d pm1 route parentPath localeCodes modifyName addLocalePrefix
         rule: createLocalizedChildren_createLocalizedVariants.induct)
  case (1 d pm parentPath localeCodes modifyName addLocalePrefix)
  show ?case by simp
next
  case (2 d pm route routes parentPath localeCodes modifyName addLocalePrefix)
  then show ?case by simp
next
  case (3 d pm route parentPath localeCodes modifyName addLocalePrefix)
  then show ?case
    using createLocalizedChildRoute_same [of pm pm2] by (simp add: Let_def)
qed

lemma createLocalizedRoute_same:
  assumes "sameCustomPaths pm1 pm2"
  shows "createLocalizedRoute d pm2 page localeCodes oc isCustom customPath
         = createLocalizedRoute d pm1 page localeCodes oc isCustom customPath"
  using assms createLocalized_same(1) [OF assms]
  by (simp add: createLocalizedRoute_def buildRoutePath_def sameCustomPaths_def)

lemma filterLocaleCodesWithoutCustomPaths_same:
  assumes "sameCustomPaths pm1 pm2"
  shows "filterLocaleCodesWithoutCustomPaths pm2 k = filterLocaleCodesWithoutCustomPaths pm1 k"
proof -
  have "truthy v = (nonEmptyPath v \<noteq> None)" for v
    by (simp add: truthy_def nonEmptyPath_def split: option.splits)
  then have "truthy (lookupPath (localizedPaths pm2) k c)
             = truthy (lookupPath (localizedPaths pm1) k c)" for c
    using sameCustomPaths_lookup [OF assms, of k c] by simp
  then show ?thesis
    using assms by (simp add: filterLocaleCodesWithoutCustomPaths_def sameCustomPaths_def)
qed

lemma addCustomLocalizedRoute_nonEmpty:
  "addCustomLocalizedRoute d pm k oc l (page, add) =
     (case nonEmptyPath (lookupPath (localizedPaths pm) k (code l)) of
        None \<Rightarrow> (page, add)
      | Some customPath \<Rightarrow>
          if isLocaleDefault d (Inr l) (defaultLocale pm) (includeDefaultLocaleRoute pm)
          then (setChildren page (createLocalizedChildren d pm oc [] [code l] False False), add)
          else (page, add @ [createLocalizedRoute d pm page [code l] oc True customPath]))"
  by (simp add: addCustomLocalizedRoute_def nonEmptyPath_def split: option.splits)

lemma addCustomLocalizedRoute_same:
  assumes "sameCustomPaths pm1 pm2"
  shows "addCustomLocalizedRoute d pm2 k oc l st = addCustomLocalizedRoute d pm1 k oc l st"
proof (cases st)
  case (Pair page add)
  show ?thesis
    unfolding Pair addCustomLocalizedRoute_nonEmpty
    using assms sameCustomPaths_lookup [OF assms, of k "code l"]
      createLocalized_same(1) [OF assms] createLocalizedRoute_same [OF assms]
    by (simp add: sameCustomPaths_def split: option.splits)
qed

lemma addCustomLocalizedRoutes_same:
  assumes "sameCustomPaths pm1 pm2"
  shows "addCustomLocalizedRoutes d pm2 page k oc add = addCustomLocalizedRoutes d pm1 page k oc add"
proof -
  have "addCustomLocalizedRoute d pm2 k oc = addCustomLocalizedRoute d pm1 k oc"
    using addCustomLocalizedRoute_same [OF assms] by (intro ext) simp
  then show ?thesis using assms by (simp add: addCustomLocalizedRoutes_def sameCustomPaths_def)
qed

lemma adjustRouteForDefaultLocale_nonEmpty:
  "adjustRouteForDefaultLocale d pm page0 oc =
     (let page = (case nonEmptyPath (lookupPath (localizedPaths pm) (path page0)
                                       (code (defaultLocale pm))) of
                    None \<Rightarrow> page0
                  | Some customPath \<Rightarrow> setPath page0 (normalizePath d customPath));
          currentChildren = childrenOrEmpty page
      in if oc \<noteq> [] then
           (let newName = normalizePath d (path_join d ''/'' (nameOrEmpty page));
                localizedChildren = mergeChildren d pm oc newName [code (defaultLocale pm)]
            in setChildren page
                 (fold (mergeLocalizedChild currentChildren) localizedChildren currentChildren))
         else page)"
  by (simp add: adjustRouteForDefaultLocale_def nonEmptyPath_def Let_def split: option.splits)

lemma adjustRouteForDefaultLocale_same:
  assumes "sameCustomPaths pm1 pm2"
  shows "adjustRouteForDefaultLocale d pm2 page oc = adjustRouteForDefaultLocale d pm1 page oc"
proof -
  have dl: "defaultLocale pm2 = defaultLocale pm1" using assms by (simp add: sameCustomPaths_def)
  have "mergeChildren d pm2 oc p cs = mergeChildren d pm1 oc p cs" for p cs
    using createLocalized_same(1) [OF assms] by (simp add: mergeChildren_def)
  then show ?thesis
    unfolding adjustRouteForDefaultLocale_nonEmpty
    using sameCustomPaths_lookup [OF assms, of "path page" "code (defaultLocale pm1)"] dl
    by (simp add: Let_def split: option.splits)
qed

lemma localizePage_same:
  assumes "sameCustomPaths pm1 pm2"
  shows "localizePage d pm2 page add = localizePage d pm1 page add"
  using createLocalizedRoute_same [OF assms] filterLocaleCodesWithoutCustomPaths_same [OF assms]
    addCustomLocalizedRoutes_same [OF assms] adjustRouteForDefaultLocale_same [OF assms]
  by (simp add: localizePage_def Let_def)

lemma sameCustomPaths_empty_entry:
  "sameCustomPaths (pm \<lparr> localizedPaths := (localizedPaths pm)(k \<mapsto> m(c := None)) \<rparr>)
                   (pm \<lparr> localizedPaths := (localizedPaths pm)(k \<mapsto> m(c \<mapsto> [])) \<rparr>)"
  by (simp add: sameCustomPaths_def lookupPath_def nonEmptyPath_def)

lemma addCustomGlobalLocalizedRoute_empty:
  "addCustomGlobalLocalizedRoute d pm (g(c \<mapsto> [])) l st
   = addCustomGlobalLocalizedRoute d pm (g(c := None)) l st"
  by (cases st) (simp add: addCustomGlobalLocalizedRoute_def)

text \<open>
  C9. An override entry that is the empty string is treated as an absent entry. In custom
  mode, the loop body of \<^verbatim>\<open>addCustomGlobalLocalizedRoutes\<close> leaves the page and
  \<^verbatim>\<open>additionalRoutes\<close> as they are for a locale whose entry is the empty string, as it does
  for a locale with no entry, and the whole loop gives the same result for both. In default
  mode the same holds for the loop body of \<^verbatim>\<open>addCustomLocalizedRoutes\<close>, and the whole of
  \<^verbatim>\<open>localizePage\<close> gives the same result whether an entry of the index is the empty string or
  absent.
\<close>

theorem empty_custom_path_is_absent:
  "addCustomGlobalLocalizedRoute d pm (g(code l \<mapsto> [])) l st = st
   \<and> addCustomGlobalLocalizedRoute d pm (g(code l := None)) l st = st
   \<and> addCustomGlobalLocalizedRoutes d pm page (g(c \<mapsto> [])) add
       = addCustomGlobalLocalizedRoutes d pm page (g(c := None)) add
   \<and> addCustomLocalizedRoute d (pm \<lparr> localizedPaths := (localizedPaths pm)(k \<mapsto> m(code l \<mapsto> [])) \<rparr>)
         k oc l st = st
   \<and> addCustomLocalizedRoute d (pm \<lparr> localizedPaths := (localizedPaths pm)(k \<mapsto> m(code l := None)) \<rparr>)
         k oc l st = st
   \<and> localizePage d (pm \<lparr> localizedPaths := (localizedPaths pm)(k \<mapsto> m(c \<mapsto> [])) \<rparr>) page add
       = localizePage d (pm \<lparr> localizedPaths := (localizedPaths pm)(k \<mapsto> m(c := None)) \<rparr>) page add"
proof -
  have a: "addCustomGlobalLocalizedRoute d pm (g(code l \<mapsto> [])) l st = st"
    by (cases st) (simp add: addCustomGlobalLocalizedRoute_def)
  have b: "addCustomGlobalLocalizedRoute d pm (g(code l := None)) l st = st"
    by (cases st) (simp add: addCustomGlobalLocalizedRoute_def)
  have "addCustomGlobalLocalizedRoute d pm (g(c \<mapsto> []))
        = addCustomGlobalLocalizedRoute d pm (g(c := None))"
    using addCustomGlobalLocalizedRoute_empty by (intro ext) simp
  then have c: "addCustomGlobalLocalizedRoutes d pm page (g(c \<mapsto> [])) add
       = addCustomGlobalLocalizedRoutes d pm page (g(c := None)) add"
    by (simp add: addCustomGlobalLocalizedRoutes_def)
  have e: "addCustomLocalizedRoute d
             (pm \<lparr> localizedPaths := (localizedPaths pm)(k \<mapsto> m(code l \<mapsto> [])) \<rparr>) k oc l st = st"
    by (cases st) (simp add: addCustomLocalizedRoute_def lookupPath_def)
  have f: "addCustomLocalizedRoute d
             (pm \<lparr> localizedPaths := (localizedPaths pm)(k \<mapsto> m(code l := None)) \<rparr>) k oc l st = st"
    by (cases st) (simp add: addCustomLocalizedRoute_def lookupPath_def)
  note h = localizePage_same [OF sameCustomPaths_empty_entry, of d pm k m c page add]
  from a b c e f h show ?thesis by simp
qed

theorem empty_custom_path_is_absent_witness:
  "addCustomGlobalLocalizedRoutes specDeps plainManager pageAbout
      ([''fr'' \<mapsto> ''/a-propos''](''en'' \<mapsto> [])) []
   = (pageAbout, [NuxtPage (Some ''localized-about-fr'') ''/fr/a-propos'' None None (Some [])])"
proof -
  have "addCustomGlobalLocalizedRoutes specDeps plainManager pageAbout
          ([''fr'' \<mapsto> ''/a-propos''](''en'' := None)) []
        = (pageAbout, [NuxtPage (Some ''localized-about-fr'') ''/fr/a-propos'' None None (Some [])])"
    by (simp add: model_defs spec_defs sample_defs Let_def)
  with empty_custom_path_is_absent
         [of specDeps plainManager "[''fr'' \<mapsto> ''/a-propos'']" localeEn "(pageAbout, [])"
             pageAbout "''en''" "[]"]
  show ?thesis by simp
qed

section \<open>C10: redirect-only pages in custom mode\<close>








section \<open>C3: the global override and the embedded configuration\<close>

lemma nodesUnder_eq:
  "nodesUnder d parentPath page =
     (normalizePath d (path_join d parentPath (path page)), page)
     # nodesOf d (normalizePath d (path_join d parentPath (path page))) (childrenOrEmpty page)"
  by (simp add: Let_def)

declare nodesUnder.simps [simp del]

lemma extractFromFile_other_key:
  "extractFromFile d rootDir parentPath page acc = Inr acc' \<Longrightarrow>
     k \<noteq> normalizePath d (path_join d parentPath (path page)) \<Longrightarrow> acc' k = acc k"
  by (auto simp: extractFromFile_def Let_def split: option.splits if_splits sum.splits)

lemma extract_dom:
  "extractLocalizedPaths d pm pages rootDir parentPath = Inr idx \<Longrightarrow>
     dom idx \<subseteq> fst ` set (nodesOf d parentPath pages)"
  "extractPages d pm rootDir parentPath pages acc = Inr idx \<Longrightarrow>
     dom idx \<subseteq> dom acc \<union> fst ` set (nodesOf d parentPath pages)"
  "extractPage d pm rootDir parentPath page acc = Inr idx \<Longrightarrow>
     dom idx \<subseteq> dom acc \<union> fst ` set (nodesUnder d parentPath page)"
proof (induction d pm pages rootDir parentPath and d pm rootDir parentPath pages acc
         and d pm rootDir parentPath page acc
         arbitrary: idx and idx and idx
         rule: extractLocalizedPaths_extractPages_extractPage.induct)
  case (1 d pm pages rootDir parentPath)
  then show ?case by simp
next
  case (2 d pm rootDir parentPath acc)
  then show ?case by simp
next
  case (3 d pm rootDir parentPath page rest acc)
  from "3.prems" obtain acc' where
    first: "extractPage d pm rootDir parentPath page acc = Inr acc'"
    and after: "extractPages d pm rootDir parentPath rest acc' = Inr idx"
    by (auto split: sum.splits)
  from "3.IH"(1) [OF first] "3.IH"(2) [OF first after]
  have "dom idx \<subseteq> dom acc \<union> (fst ` set (nodesUnder d parentPath page)
                                  \<union> fst ` set (nodesOf d parentPath rest))"
    by blast
  then show ?case by (simp add: image_Un)
next
  case (4 d pm rootDir parentPath page acc)
  let ?full = "normalizePath d (path_join d parentPath (path page))"
  let ?own = "case globalLocaleRoutes pm (nameOrEmpty page) of
              None \<Rightarrow> extractFromFile d rootDir parentPath page acc
            | Some (Flag False) \<Rightarrow> extractFromFile d rootDir parentPath page acc
            | Some (Flag True) \<Rightarrow> Inr acc
            | Some (LocalePaths globalLocalePath) \<Rightarrow> Inr (acc(?full \<mapsto> globalLocalePath))"
  from "4.prems" obtain acc' where own: "?own = Inr acc'"
    by (auto split: sum.splits)
  have dom_own: "dom acc' \<subseteq> dom acc \<union> {?full}"
  proof
    fix k assume k: "k \<in> dom acc'"
    show "k \<in> dom acc \<union> {?full}"
    proof (cases "k = ?full")
      case True then show ?thesis by simp
    next
      case False
      have "acc' k = acc k"
        using own False extractFromFile_other_key [of d rootDir parentPath page acc acc' k]
        by (auto split: option.splits routeEntry.splits bool.splits)
      with k have "k \<in> dom acc" by (simp add: dom_def)
      then show ?thesis by simp
    qed
  qed
  show ?case
  proof (cases "childrenOrEmpty page = []")
    case True
    with "4.prems" own have "idx = acc'" by simp
    with dom_own show ?thesis by (auto simp: nodesUnder_eq)
  next
    case False
    with "4.prems" own obtain sub where
      sub: "extractLocalizedPaths d pm (childrenOrEmpty page) rootDir ?full = Inr sub"
      and idx: "idx = acc' ++ sub"
      by (auto split: sum.splits)
    from "4.IH" [OF own False sub]
    have "dom sub \<subseteq> fst ` set (nodesOf d ?full (childrenOrEmpty page))" .
    with dom_own idx show ?thesis by (auto simp: nodesUnder_eq)
  qed
qed


lemma extract_global_entry:
  "extractLocalizedPaths d pm pages rootDir parentPath = Inr idx \<Longrightarrow>
     \<forall>q. (k, q) \<in> set (nodesOf d parentPath pages)
           \<longrightarrow> globalLocaleRoutes pm (nameOrEmpty q) = Some (LocalePaths g) \<Longrightarrow>
     k \<in> fst ` set (nodesOf d parentPath pages) \<Longrightarrow> idx k = Some g"
  "extractPages d pm rootDir parentPath pages acc = Inr idx \<Longrightarrow>
     \<forall>q. (k, q) \<in> set (nodesOf d parentPath pages)
           \<longrightarrow> globalLocaleRoutes pm (nameOrEmpty q) = Some (LocalePaths g) \<Longrightarrow>
     acc k = Some g \<or> k \<in> fst ` set (nodesOf d parentPath pages) \<Longrightarrow> idx k = Some g"
  "extractPage d pm rootDir parentPath page acc = Inr idx \<Longrightarrow>
     \<forall>q. (k, q) \<in> set (nodesUnder d parentPath page)
           \<longrightarrow> globalLocaleRoutes pm (nameOrEmpty q) = Some (LocalePaths g) \<Longrightarrow>
     acc k = Some g \<or> k \<in> fst ` set (nodesUnder d parentPath page) \<Longrightarrow> idx k = Some g"
proof (induction d pm pages rootDir parentPath and d pm rootDir parentPath pages acc
         and d pm rootDir parentPath page acc
         arbitrary: idx and idx and idx
         rule: extractLocalizedPaths_extractPages_extractPage.induct)
  case (1 d pm pages rootDir parentPath)
  from "1.prems"(1) have "extractPages d pm rootDir parentPath pages Map.empty = Inr idx"
    by simp
  from "1.IH" [OF this "1.prems"(2)] "1.prems"(3) show ?case by simp
next
  case (2 d pm rootDir parentPath acc)
  then show ?case by simp
next
  case (3 d pm rootDir parentPath page rest acc)
  from "3.prems"(1) obtain acc' where
    first: "extractPage d pm rootDir parentPath page acc = Inr acc'"
    and after: "extractPages d pm rootDir parentPath rest acc' = Inr idx"
    by (auto split: sum.splits)
  have all1: "\<forall>q. (k, q) \<in> set (nodesUnder d parentPath page)
           \<longrightarrow> globalLocaleRoutes pm (nameOrEmpty q) = Some (LocalePaths g)"
    and all2: "\<forall>q. (k, q) \<in> set (nodesOf d parentPath rest)
           \<longrightarrow> globalLocaleRoutes pm (nameOrEmpty q) = Some (LocalePaths g)"
    using "3.prems"(2) by simp_all
  show ?case
  proof (cases "k \<in> fst ` set (nodesOf d parentPath rest)")
    case True
    then show ?thesis using "3.IH"(2) [OF first after all2] by simp
  next
    case False
    with "3.prems"(3) have "acc k = Some g \<or> k \<in> fst ` set (nodesUnder d parentPath page)"
      by (auto simp: image_Un)
    from "3.IH"(1) [OF first all1 this] have "acc' k = Some g" .
    then show ?thesis using "3.IH"(2) [OF first after all2] by simp
  qed
next
  case (4 d pm rootDir parentPath page acc)
  let ?full = "normalizePath d (path_join d parentPath (path page))"
  let ?own = "case globalLocaleRoutes pm (nameOrEmpty page) of
              None \<Rightarrow> extractFromFile d rootDir parentPath page acc
            | Some (Flag False) \<Rightarrow> extractFromFile d rootDir parentPath page acc
            | Some (Flag True) \<Rightarrow> Inr acc
            | Some (LocalePaths globalLocalePath) \<Rightarrow> Inr (acc(?full \<mapsto> globalLocalePath))"
  from "4.prems"(1) obtain acc' where own: "?own = Inr acc'"
    by (auto split: sum.splits)
  have allsub: "\<forall>q. (k, q) \<in> set (nodesOf d ?full (childrenOrEmpty page))
           \<longrightarrow> globalLocaleRoutes pm (nameOrEmpty q) = Some (LocalePaths g)"
    using "4.prems"(2) by (simp add: nodesUnder_eq)
  have own_k: "acc' k = Some g \<or> k \<in> fst ` set (nodesOf d ?full (childrenOrEmpty page))"
  proof (cases "k = ?full")
    case True
    with "4.prems"(2) have "globalLocaleRoutes pm (nameOrEmpty page) = Some (LocalePaths g)"
      by (simp add: nodesUnder_eq)
    with own True show ?thesis by auto
  next
    case False
    have "acc' k = acc k"
      using own False extractFromFile_other_key [of d rootDir parentPath page acc acc' k]
      by (auto split: option.splits routeEntry.splits bool.splits)
    with "4.prems"(3) False show ?thesis by (auto simp: nodesUnder_eq)
  qed
  show ?case
  proof (cases "childrenOrEmpty page = []")
    case True
    with "4.prems"(1) own have "idx = acc'" by simp
    with own_k True show ?thesis by simp
  next
    case False
    with "4.prems"(1) own obtain sub where
      sub: "extractLocalizedPaths d pm (childrenOrEmpty page) rootDir ?full = Inr sub"
      and idx: "idx = acc' ++ sub"
      by (auto split: sum.splits)
    show ?thesis
    proof (cases "k \<in> fst ` set (nodesOf d ?full (childrenOrEmpty page))")
      case True
      from "4.IH" [OF own False sub allsub True] idx show ?thesis by simp
    next
      case notbelow: False
      with extract_dom(1) [OF sub] have "sub k = None" by (auto simp: dom_def)
      with own_k notbelow idx show ?thesis by (simp add: map_add_def)
    qed
  qed
qed

lemma extractPage_global:
  assumes "globalLocaleRoutes pm (nameOrEmpty page) = Some (LocalePaths g)"
  shows "extractPage d pm rootDir parentPath page acc =
     (if childrenOrEmpty page \<noteq> [] then
        (case extractLocalizedPaths d pm (childrenOrEmpty page) rootDir
                (normalizePath d (path_join d parentPath (path page))) of
           Inl e \<Rightarrow> Inl e
         | Inr sub \<Rightarrow>
             Inr (acc(normalizePath d (path_join d parentPath (path page)) \<mapsto> g) ++ sub))
      else Inr (acc(normalizePath d (path_join d parentPath (path page)) \<mapsto> g)))"
  using assms by simp

text \<open>
  C3. Let the name of a page have an object entry in \<^verbatim>\<open>globalLocaleRoutes\<close>. Then the loop
  body of the indexer records this entry at the page's normalized full path and goes on to
  the children: the page file is not read and the page-config extractor is not called for
  this page, whatever they would return or throw, and the result is the same for every
  value of the page's \<^verbatim>\<open>file\<close>. After a run of \<^verbatim>\<open>extendPages\<close> in which the page is a node of
  the tree and the only node with its normalized full path, the index holds the global
  entry there, so the path read for a locale is the global one.
\<close>

theorem global_override_recorded:
  assumes entry: "globalLocaleRoutes pm (nameOrEmpty page) = Some (LocalePaths g)"
  shows "extractPage d pm rootDir parentPath page acc =
     (if childrenOrEmpty page \<noteq> [] then
        (case extractLocalizedPaths d pm (childrenOrEmpty page) rootDir
                (normalizePath d (path_join d parentPath (path page))) of
           Inl e \<Rightarrow> Inl e
         | Inr sub \<Rightarrow>
             Inr (acc(normalizePath d (path_join d parentPath (path page)) \<mapsto> g) ++ sub))
      else Inr (acc(normalizePath d (path_join d parentPath (path page)) \<mapsto> g)))
   \<and> extractPage d pm rootDir parentPath
        (NuxtPage (name page) (path page) anyFile (redirect page) (children page)) acc
       = extractPage d pm rootDir parentPath page acc
   \<and> (extendPages d pm pages rootDir = Inr (pm', out)
        \<longrightarrow> (k, page) \<in> set (nodesOf d [] pages)
        \<longrightarrow> (\<forall>q. (k, q) \<in> set (nodesOf d [] pages) \<longrightarrow> q = page)
        \<longrightarrow> localizedPaths pm' k = Some g
            \<and> lookupPath (localizedPaths pm') k c = g c)"
proof -
  let ?page' = "NuxtPage (name page) (path page) anyFile (redirect page) (children page)"
  have entry': "globalLocaleRoutes pm (nameOrEmpty ?page') = Some (LocalePaths g)"
    using entry by (simp add: nameOrEmpty_def)
  have kids: "childrenOrEmpty ?page' = childrenOrEmpty page"
    by (simp add: childrenOrEmpty_def)
  have indep: "extractPage d pm rootDir parentPath ?page' acc
               = extractPage d pm rootDir parentPath page acc"
    unfolding extractPage_global [OF entry] extractPage_global [OF entry'] kids
    by (simp split: sum.splits)
  have final: "localizedPaths pm' k = Some g \<and> lookupPath (localizedPaths pm') k c = g c"
    if run: "extendPages d pm pages rootDir = Inr (pm', out)"
      and node: "(k, page) \<in> set (nodesOf d [] pages)"
      and unique: "\<forall>q. (k, q) \<in> set (nodesOf d [] pages) \<longrightarrow> q = page"
  proof -
    from extendPages_eq [OF run] obtain paths where
      paths: "extractLocalizedPaths d pm pages rootDir [] = Inr paths"
      and pm': "pm' = pm \<lparr> localizedPaths := paths \<rparr>"
      by blast
    have all: "\<forall>q. (k, q) \<in> set (nodesOf d [] pages)
           \<longrightarrow> globalLocaleRoutes pm (nameOrEmpty q) = Some (LocalePaths g)"
      using unique entry by auto
    have "k \<in> fst ` set (nodesOf d [] pages)" using node by force
    from extract_global_entry(1) [OF paths all this] pm' show ?thesis
      by (simp add: lookupPath_def)
  qed
  from extractPage_global [OF entry] indep final show ?thesis by blast
qed

theorem global_override_recorded_witness:
  "extendPages specDeps aboutManager [pageAboutFile] ''/app'' =
     Inr (aboutManager \<lparr> localizedPaths := [''/about'' \<mapsto> [''fr'' \<mapsto> ''/a-propos'']] \<rparr>,
          [pageAboutFile,
           NuxtPage (Some ''localized-about-fr'') ''/fr/a-propos'' (Some ''pages/about.vue'') None
             (Some [NuxtPage (Some ''localized-about-team-fr'') ''fr/team'' None None (Some [])])])
   \<and> lookupPath (localizedPaths
         (aboutManager \<lparr> localizedPaths := [''/about'' \<mapsto> [''fr'' \<mapsto> ''/a-propos'']] \<rparr>))
         ''/about'' ''fr'' = Some ''/a-propos''
   \<and> lookupPath embeddedPaths ''/about'' ''fr'' = Some ''/embedded-fr''"
proof -
  have run: "extendPages specDeps aboutManager [pageAboutFile] ''/app'' =
     Inr (aboutManager \<lparr> localizedPaths := [''/about'' \<mapsto> [''fr'' \<mapsto> ''/a-propos'']] \<rparr>,
          [pageAboutFile,
           NuxtPage (Some ''localized-about-fr'') ''/fr/a-propos'' (Some ''pages/about.vue'') None
             (Some [NuxtPage (Some ''localized-about-team-fr'') ''fr/team'' None None (Some [])])])"
    by (simp add: model_defs spec_defs sample_defs aboutManager_def pageAboutFile_def
          embeddedPaths_def Let_def)
  have entry: "globalLocaleRoutes aboutManager (nameOrEmpty pageAboutFile)
               = Some (LocalePaths [''fr'' \<mapsto> ''/a-propos''])"
    by (simp add: model_defs sample_defs aboutManager_def pageAboutFile_def embeddedPaths_def)
  have nodes: "nodesOf specDeps [] [pageAboutFile] =
     [(''/about'', pageAboutFile),
      (''/about/team'', NuxtPage (Some ''about-team'') ''team'' None None None)]"
    by (simp add: nodesUnder_eq model_defs spec_defs sample_defs aboutManager_def
          pageAboutFile_def embeddedPaths_def Let_def)
  have node: "(''/about'', pageAboutFile) \<in> set (nodesOf specDeps [] [pageAboutFile])"
    by (subst nodes) simp
  have unique: "\<forall>q. (''/about'', q) \<in> set (nodesOf specDeps [] [pageAboutFile])
                  \<longrightarrow> q = pageAboutFile"
    by (subst nodes) simp
  from global_override_recorded [OF entry] run node unique
  have "lookupPath (localizedPaths
         (aboutManager \<lparr> localizedPaths := [''/about'' \<mapsto> [''fr'' \<mapsto> ''/a-propos'']] \<rparr>))
         ''/about'' ''fr'' = [''fr'' \<mapsto> ''/a-propos''] ''fr''"
    by blast
  moreover have "lookupPath embeddedPaths ''/about'' ''fr'' = Some ''/embedded-fr''"
    by (simp add: lookupPath_def embeddedPaths_def)
  ultimately show ?thesis using run by simp
qed

section \<open>C7: scenario B\<close>

text \<open>
  C7. Locales \<^verbatim>\<open>en\<close> and \<^verbatim>\<open>fr\<close>, default \<^verbatim>\<open>en\<close>, \<^verbatim>\<open>includeDefaultLocaleRoute\<close> false, the page
  \<^verbatim>\<open>{ name: 'about', path: '/about' }\<close> and the override \<^verbatim>\<open>{ about: { fr: '/a-propos' } }\<close>.
  The run appends one sibling and leaves the original node untouched, since \<^verbatim>\<open>en\<close> has no
  entry. The sibling's path is what \<^verbatim>\<open>buildFullPath\<close> returns for \<^verbatim>\<open>['fr']\<close> and
  \<^verbatim>\<open>/a-propos\<close>, and its name what \<^verbatim>\<open>buildRouteName\<close> returns for \<^verbatim>\<open>about\<close> and \<^verbatim>\<open>fr\<close>; with
  the values that the specification gives for them, \<^verbatim>\<open>/fr/a-propos\<close> and
  \<^verbatim>\<open>localized-about-fr\<close>, the run is as the scenario says. \<^verbatim>\<open>fr\<close> is taken not to be handled
  as the default locale.
\<close>

theorem scenario_B:
  assumes other: "\<not> isLocaleDefault d (Inr localeFr) localeEn False"
    and fullPath: "buildFullPath d (Inr [''fr'']) ''/a-propos'' = ''/fr/a-propos''"
    and routeName: "buildRouteName d ''about'' (Some ''fr'') True = ''localized-about-fr''"
  shows "extendPages d aboutManager [NuxtPage (Some ''about'') ''/about'' None None None] rootDir =
     Inr (aboutManager \<lparr> localizedPaths :=
                           [normalizePath d (path_join d [] ''/about'') \<mapsto> [''fr'' \<mapsto> ''/a-propos'']] \<rparr>,
          [NuxtPage (Some ''about'') ''/about'' None None None,
           NuxtPage (Some ''localized-about-fr'') ''/fr/a-propos'' None None (Some [])])"
  using assms
  by (simp add: model_defs sample_defs aboutManager_def Let_def)

theorem scenario_B_witness:
  "extendPages specDeps aboutManager [NuxtPage (Some ''about'') ''/about'' None None None] ''/app'' =
     Inr (aboutManager \<lparr> localizedPaths := [''/about'' \<mapsto> [''fr'' \<mapsto> ''/a-propos'']] \<rparr>,
          [NuxtPage (Some ''about'') ''/about'' None None None,
           NuxtPage (Some ''localized-about-fr'') ''/fr/a-propos'' None None (Some [])])"
proof -
  have other: "\<not> isLocaleDefault specDeps (Inr localeFr) localeEn False"
    by (simp add: spec_defs sample_defs aboutManager_def)
  have fullPath: "buildFullPath specDeps (Inr [''fr'']) ''/a-propos'' = ''/fr/a-propos''"
    by (simp add: spec_defs)
  have routeName: "buildRouteName specDeps ''about'' (Some ''fr'') True = ''localized-about-fr''"
    by (simp add: spec_defs)
  have key: "normalizePath specDeps (path_join specDeps [] ''/about'') = ''/about''"
    by (simp add: spec_defs)
  from scenario_B [OF other fullPath routeName, of "''/app''"] key show ?thesis by simp
qed

section \<open>C2: scenario D\<close>

text \<open>
  C2, as stated, fails: with \<^verbatim>\<open>includeDefaultLocaleRoute\<close> true and the overrides
  \<^verbatim>\<open>{ about: { en: '/uber-uns', fr: '/a-propos' } }\<close> the original node does not get the path
  \<^verbatim>\<open>/en/uber-uns\<close>. With \<^verbatim>\<open>isLocaleDefault\<close> read as "the locale is the default locale" the
  node's path becomes \<^verbatim>\<open>/uber-uns\<close>; read as "the locale is the default locale and the flag
  is off" the node keeps \<^verbatim>\<open>/about\<close>, and \<^verbatim>\<open>/en/uber-uns\<close> is the path of a sibling appended for
  \<^verbatim>\<open>en\<close>.
\<close>

theorem scenario_D_counterexample:
  "extendPages specDeps prefixedManager [NuxtPage (Some ''about'') ''/about'' None None None] ''/app'' =
     Inr (prefixedManager \<lparr> localizedPaths :=
            [''/about'' \<mapsto> [''en'' \<mapsto> ''/uber-uns'', ''fr'' \<mapsto> ''/a-propos'']] \<rparr>,
          [NuxtPage (Some ''about'') ''/uber-uns'' None None None,
           NuxtPage (Some ''localized-about-fr'') ''/fr/a-propos'' None None (Some [])])
   \<and> extendPages flaggedDeps prefixedManager [NuxtPage (Some ''about'') ''/about'' None None None] ''/app'' =
     Inr (prefixedManager \<lparr> localizedPaths :=
            [''/about'' \<mapsto> [''en'' \<mapsto> ''/uber-uns'', ''fr'' \<mapsto> ''/a-propos'']] \<rparr>,
          [NuxtPage (Some ''about'') ''/about'' None None None,
           NuxtPage (Some ''localized-about-en'') ''/en/uber-uns'' None None (Some []),
           NuxtPage (Some ''localized-about-fr'') ''/fr/a-propos'' None None (Some [])])
   \<and> path (NuxtPage (Some ''about'') ''/uber-uns'' None None None) \<noteq> ''/en/uber-uns''
   \<and> path (NuxtPage (Some ''about'') ''/about'' None None None) \<noteq> ''/en/uber-uns''"
  by (simp add: model_defs spec_defs sample_defs prefixedManager_def flaggedDeps_def
        isLocaleDefaultFlagged_def Let_def)

text \<open>
  C2, amended. In scenario D a sibling is appended for \<^verbatim>\<open>fr\<close>, with the path that
  \<^verbatim>\<open>buildFullPath\<close> returns for \<^verbatim>\<open>['fr']\<close> and \<^verbatim>\<open>/a-propos\<close>. The original node never gets a
  locale prefix: when \<^verbatim>\<open>isLocaleDefault\<close> holds of \<^verbatim>\<open>en\<close> with the flag set, its path becomes
  \<^verbatim>\<open>normalizePath('/uber-uns')\<close>; otherwise it is left untouched and a sibling is appended
  for \<^verbatim>\<open>en\<close> as well, with the path that \<^verbatim>\<open>buildFullPath\<close> returns for \<^verbatim>\<open>['en']\<close> and
  \<^verbatim>\<open>/uber-uns\<close>. This holds for every implementation of the imported functions under which
  \<^verbatim>\<open>fr\<close> is not handled as the default locale.
\<close>

theorem scenario_D:
  assumes other: "\<not> isLocaleDefault d (Inr localeFr) localeEn True"
  shows "extendPages d prefixedManager [NuxtPage (Some ''about'') ''/about'' None None None] rootDir =
     Inr (prefixedManager \<lparr> localizedPaths :=
            [normalizePath d (path_join d [] ''/about'')
               \<mapsto> [''en'' \<mapsto> ''/uber-uns'', ''fr'' \<mapsto> ''/a-propos'']] \<rparr>,
          (if isLocaleDefault d (Inr localeEn) localeEn True
           then [NuxtPage (Some ''about'') (normalizePath d ''/uber-uns'') None None None]
           else [NuxtPage (Some ''about'') ''/about'' None None None,
                 NuxtPage (Some (buildRouteName d ''about'' (Some ''en'') True))
                   (buildFullPath d (Inr [''en'']) ''/uber-uns'') None None (Some [])])
          @ [NuxtPage (Some (buildRouteName d ''about'' (Some ''fr'') True))
               (buildFullPath d (Inr [''fr'']) ''/a-propos'') None None (Some [])])"
  using assms
  by (simp add: model_defs sample_defs prefixedManager_def Let_def)

theorem scenario_D_witness:
  "extendPages specDeps prefixedManager [NuxtPage (Some ''about'') ''/about'' None None None] ''/app'' =
     Inr (prefixedManager \<lparr> localizedPaths :=
            [''/about'' \<mapsto> [''en'' \<mapsto> ''/uber-uns'', ''fr'' \<mapsto> ''/a-propos'']] \<rparr>,
          [NuxtPage (Some ''about'') ''/uber-uns'' None None None,
           NuxtPage (Some ''localized-about-fr'') ''/fr/a-propos'' None None (Some [])])"
proof -
  have other: "\<not> isLocaleDefault specDeps (Inr localeFr) localeEn True"
    by (simp add: spec_defs sample_defs prefixedManager_def)
  have inPlace: "isLocaleDefault specDeps (Inr localeEn) localeEn True"
    by (simp add: spec_defs sample_defs prefixedManager_def)
  have helpers: "normalizePath specDeps (path_join specDeps [] ''/about'') = ''/about''"
    "normalizePath specDeps ''/uber-uns'' = ''/uber-uns''"
    "buildRouteName specDeps ''about'' (Some ''fr'') True = ''localized-about-fr''"
    "buildFullPath specDeps (Inr [''fr'']) ''/a-propos'' = ''/fr/a-propos''"
    by (simp_all add: spec_defs)
  from scenario_D [OF other, of "''/app''"] inPlace helpers show ?thesis by simp
qed

section \<open>C6: the names of generated routes\<close>

lemma name_createLocalizedRoute:
  "name (createLocalizedRoute d pm page localeCodes oc isCustom customPath)
   = Some (buildRouteName d (nameOrEmpty page) (firstCode localeCodes) isCustom)"
  by (simp add: createLocalizedRoute_def Let_def)

lemma nameOrEmpty_setChildren [simp]: "nameOrEmpty (setChildren page v) = nameOrEmpty page"
  by (simp add: nameOrEmpty_def)

lemma names_addCustomGlobalLocalizedRoutes:
  "map name (snd (fold (addCustomGlobalLocalizedRoute d pm g) ls (page, add))) =
     map name add
     @ map (\<lambda>l. Some (buildRouteName d (nameOrEmpty page) (Some (code l)) True))
         (filter (\<lambda>l. truthy (g (code l))
                       \<and> \<not> isLocaleDefault d (Inr l) (defaultLocale pm)
                             (includeDefaultLocaleRoute pm)) ls)"
proof (induction ls arbitrary: page add)
  case Nil
  show ?case by simp
next
  case (Cons l ls)
  show ?case
  proof (cases "truthy (g (code l))")
    case False
    then have "addCustomGlobalLocalizedRoute d pm g l (page, add) = (page, add)"
      by (auto simp: addCustomGlobalLocalizedRoute_def truthy_def split: option.splits)
    with False Cons.IH [of page add] show ?thesis by simp
  next
    case True
    then obtain customPath where cp: "g (code l) = Some customPath" "customPath \<noteq> []"
      by (auto simp: truthy_def split: option.splits)
    show ?thesis
    proof (cases "isLocaleDefault d (Inr l) (defaultLocale pm) (includeDefaultLocaleRoute pm)")
      case default: True
      with cp have "addCustomGlobalLocalizedRoute d pm g l (page, add)
                    = (setPath page (normalizePath d customPath), add)"
        by (simp add: addCustomGlobalLocalizedRoute_def)
      with default True Cons.IH [of "setPath page (normalizePath d customPath)" add]
      show ?thesis by simp
    next
      case other: False
      let ?r = "createLocalizedRoute d pm page [code l] (childrenOrEmpty page) True customPath"
      from other cp have "addCustomGlobalLocalizedRoute d pm g l (page, add) = (page, add @ [?r])"
        by (simp add: addCustomGlobalLocalizedRoute_def)
      with other True Cons.IH [of page "add @ [?r]"]
      show ?thesis by (simp add: name_createLocalizedRoute firstCode_def)
    qed
  qed
qed

lemma names_addCustomLocalizedRoutes:
  "map name (snd (fold (addCustomLocalizedRoute d pm k oc) ls (page, add))) =
     map name add
     @ map (\<lambda>l. Some (buildRouteName d (nameOrEmpty page) (Some (code l)) True))
         (filter (\<lambda>l. truthy (lookupPath (localizedPaths pm) k (code l))
                       \<and> \<not> isLocaleDefault d (Inr l) (defaultLocale pm)
                             (includeDefaultLocaleRoute pm)) ls)"
proof (induction ls arbitrary: page add)
  case Nil
  show ?case by simp
next
  case (Cons l ls)
  show ?case
  proof (cases "truthy (lookupPath (localizedPaths pm) k (code l))")
    case False
    then have "addCustomLocalizedRoute d pm k oc l (page, add) = (page, add)"
      by (auto simp: addCustomLocalizedRoute_def truthy_def split: option.splits)
    with False Cons.IH [of page add] show ?thesis by simp
  next
    case True
    then obtain customPath where cp: "lookupPath (localizedPaths pm) k (code l) = Some customPath"
      "customPath \<noteq> []"
      by (auto simp: truthy_def split: option.splits)
    show ?thesis
    proof (cases "isLocaleDefault d (Inr l) (defaultLocale pm) (includeDefaultLocaleRoute pm)")
      case default: True
      let ?p = "setChildren page (createLocalizedChildren d pm oc [] [code l] False False)"
      from default cp have "addCustomLocalizedRoute d pm k oc l (page, add) = (?p, add)"
        by (simp add: addCustomLocalizedRoute_def)
      with default True Cons.IH [of ?p add]
      show ?thesis by simp
    next
      case other: False
      let ?r = "createLocalizedRoute d pm page [code l] oc True customPath"
      from other cp have "addCustomLocalizedRoute d pm k oc l (page, add) = (page, add @ [?r])"
        by (simp add: addCustomLocalizedRoute_def)
      with other True Cons.IH [of page "add @ [?r]"]
      show ?thesis by (simp add: name_createLocalizedRoute firstCode_def)
    qed
  qed
qed

lemma names_localizePage:
  "map name (snd (localizePage d pm page [])) =
     (if isPageRedirectOnly d page then []
      else
        (case filterLocaleCodesWithoutCustomPaths pm (normalizePath d (path page)) of
           [] \<Rightarrow> []
         | c # _ \<Rightarrow> [Some (buildRouteName d (nameOrEmpty page) (Some c) False)])
        @ map (\<lambda>l. Some (buildRouteName d (nameOrEmpty page) (Some (code l)) True))
            (filter (\<lambda>l. truthy (lookupPath (localizedPaths pm)
                                     (normalizePath d (path page)) (code l))
                          \<and> \<not> isLocaleDefault d (Inr l) (defaultLocale pm)
                                (includeDefaultLocaleRoute pm)) (locales pm)))"
proof (cases "isPageRedirectOnly d page")
  case True
  then show ?thesis by (simp add: localizePage_def)
next
  case False
  let ?k = "normalizePath d (path page)"
  let ?oc = "cloneArray (childrenOrEmpty page)"
  let ?grp = "filterLocaleCodesWithoutCustomPaths pm ?k"
  let ?a1 = "if ?grp \<noteq> [] then [createLocalizedRoute d pm page ?grp ?oc False []] else []"
  have "snd (localizePage d pm page []) = snd (addCustomLocalizedRoutes d pm page ?k ?oc ?a1)"
    using False by (simp add: localizePage_def Let_def case_prod_unfold)
  moreover have "map name ?a1 =
       (case ?grp of [] \<Rightarrow> []
        | c # _ \<Rightarrow> [Some (buildRouteName d (nameOrEmpty page) (Some c) False)])"
    by (simp add: name_createLocalizedRoute firstCode_def split: list.splits)
  ultimately show ?thesis
    using False names_addCustomLocalizedRoutes [of d pm ?k ?oc "locales pm" page ?a1]
    by (simp add: addCustomLocalizedRoutes_def)
qed

lemma names_appendedRoutes:
  "map name (appendedRoutes d pm page) = appendedNames d pm page"
proof (cases "globalLocaleRoutes pm (nameOrEmpty page)")
  case None
  then show ?thesis
    using names_localizePage [of d pm page]
    by (simp add: appendedRoutes_def appendedNames_def extendPage_def)
next
  case (Some entry)
  show ?thesis
  proof (cases entry)
    case (Flag b)
    with Some show ?thesis
      using names_localizePage [of d pm page]
      by (cases b) (simp_all add: appendedRoutes_def appendedNames_def extendPage_def)
  next
    case (LocalePaths g)
    with Some show ?thesis
      using names_addCustomGlobalLocalizedRoutes [of d pm g "locales pm" page "[]"]
      by (simp add: appendedRoutes_def appendedNames_def extendPage_def
            addCustomGlobalLocalizedRoutes_def)
  qed
qed

lemma names_createLocalizedVariants:
  "map name (createLocalizedVariants d pm route parentPath localeCodes modifyName addLocalePrefix)
   = map (\<lambda>c. Some (buildLocalizedRouteName d pm (nameOrEmpty route) c modifyName)) localeCodes"
  by (simp add: createLocalizedChildRoute_def Let_def comp_def)

lemma buildLocalizedRouteName_suffixed:
  "\<not> isLocaleDefault d (Inl c) (defaultLocale pm) (includeDefaultLocaleRoute pm) \<Longrightarrow>
     buildLocalizedRouteName d pm baseName c True = ''localized-'' @ baseName @ ''-'' @ c"
  by (simp add: buildLocalizedRouteName_def)

lemma distinct_variant_names:
  assumes "distinct localeCodes"
    and "\<forall>c \<in> set localeCodes.
           \<not> isLocaleDefault d (Inl c) (defaultLocale pm) (includeDefaultLocaleRoute pm)"
  shows "distinct (map name
           (createLocalizedVariants d pm route parentPath localeCodes True addLocalePrefix))"
proof -
  let ?f = "\<lambda>c. Some (''localized-'' @ nameOrEmpty route @ ''-'' @ c)"
  have "map (\<lambda>c. Some (buildLocalizedRouteName d pm (nameOrEmpty route) c True)) localeCodes
        = map ?f localeCodes"
    using assms(2) by (simp add: buildLocalizedRouteName_def)
  then have eq: "map name
           (createLocalizedVariants d pm route parentPath localeCodes True addLocalePrefix)
        = map ?f localeCodes"
    by (simp only: names_createLocalizedVariants)
  have "inj_on ?f (set localeCodes)"
    by (simp add: inj_on_def)
  with assms(1) have "distinct (map ?f localeCodes)"
    by (simp add: distinct_map)
  then show ?thesis by (simp only: eq)
qed


lemma distinct_localized_names:
  assumes "distinct (map code ls)"
  shows "distinct (map (\<lambda>l. Some (''localized-'' @ b @ ''-'' @ code l)) (filter P ls))"
proof -
  from assms have "distinct (map code (filter P ls))"
    by (simp add: distinct_map_filter)
  then have "distinct (map (\<lambda>c. Some (''localized-'' @ b @ ''-'' @ c)) (map code (filter P ls)))"
    by (subst distinct_map) (simp add: inj_on_def)
  then show ?thesis by (simp add: comp_def)
qed

lemma appendedNames_spec:
  assumes naming: "buildRouteName d = buildRouteNameSpec"
    and codes: "distinct (map code (locales pm))"
  shows "distinct (appendedNames d pm page)
         \<and> (\<forall>n \<in> set (appendedNames d pm page).
               \<exists>c. n = Some (''localized-'' @ nameOrEmpty page @ ''-'' @ c))"
proof -
  let ?b = "nameOrEmpty page"
  let ?k = "normalizePath d (path page)"
  let ?f = "\<lambda>l. Some (''localized-'' @ ?b @ ''-'' @ code l)"
  have custom: "distinct (map ?f (filter P (locales pm)))
                \<and> (\<forall>n \<in> set (map ?f (filter P (locales pm))).
                      \<exists>c. n = Some (''localized-'' @ ?b @ ''-'' @ c))" for P
    using distinct_localized_names [OF codes, of ?b P] by auto
  let ?P = "\<lambda>l. truthy (lookupPath (localizedPaths pm) ?k (code l))
                 \<and> \<not> isLocaleDefault d (Inr l) (defaultLocale pm) (includeDefaultLocaleRoute pm)"
  let ?grp = "filterLocaleCodesWithoutCustomPaths pm ?k"
  let ?g = "case ?grp of [] \<Rightarrow> [] | c # _ \<Rightarrow> [Some (''localized-'' @ ?b @ ''-'' @ c)]"
  have grouped: "distinct (?g @ map ?f (filter ?P (locales pm)))
                \<and> (\<forall>n \<in> set (?g @ map ?f (filter ?P (locales pm))).
                      \<exists>c. n = Some (''localized-'' @ ?b @ ''-'' @ c))"
  proof (cases ?grp)
    case Nil
    with custom [of ?P] show ?thesis by simp
  next
    case (Cons c0 rest)
    then have "c0 \<in> set ?grp" by simp
    then have "\<not> truthy (lookupPath (localizedPaths pm) ?k c0)"
      by (simp add: filterLocaleCodesWithoutCustomPaths_def)
    then have "Some (''localized-'' @ ?b @ ''-'' @ c0) \<notin> set (map ?f (filter ?P (locales pm)))"
      by auto
    with Cons custom [of ?P] show ?thesis by auto
  qed
  show ?thesis
  proof (cases "globalLocaleRoutes pm ?b")
    case None
    with grouped show ?thesis
      by (simp add: appendedNames_def naming buildRouteNameSpec_def split: list.splits)
  next
    case (Some entry)
    show ?thesis
    proof (cases entry)
      case (Flag flag)
      with Some grouped show ?thesis
        by (cases flag)
           (simp_all add: appendedNames_def naming buildRouteNameSpec_def split: list.splits)
    next
      case (LocalePaths g)
      with Some custom [of "\<lambda>l. truthy (g (code l))
                 \<and> \<not> isLocaleDefault d (Inr l) (defaultLocale pm) (includeDefaultLocaleRoute pm)"]
      show ?thesis
        by (simp add: appendedNames_def naming buildRouteNameSpec_def)
    qed
  qed
qed

lemma appendedNames_buildRouteName:
  "\<forall>n \<in> set (appendedNames d pm page).
     \<exists>c isCustom. n = Some (buildRouteName d (nameOrEmpty page) (Some c) isCustom)"
  by (auto simp: appendedNames_def split: option.splits routeEntry.splits bool.splits list.splits)

lemma appendedNames_codes:
  "\<forall>n \<in> set (appendedNames d pm page).
     (\<exists>c \<in> set (activeLocaleCodes pm).
         n = Some (buildRouteName d (nameOrEmpty page) (Some c) False))
     \<or> (\<exists>l \<in> set (locales pm).
         n = Some (buildRouteName d (nameOrEmpty page) (Some (code l)) True))"
proof -
  let ?k = "normalizePath d (path page)"
  have grp: "c \<in> set (activeLocaleCodes pm)"
    if "c # cs = filterLocaleCodesWithoutCustomPaths pm ?k" for c cs
  proof -
    from that have "c \<in> set (filterLocaleCodesWithoutCustomPaths pm ?k)"
      by (metis list.set_intros(1))
    then show ?thesis by (simp add: filterLocaleCodesWithoutCustomPaths_def)
  qed
  show ?thesis
    by (auto simp: appendedNames_def dest: grp
             split: option.splits routeEntry.splits bool.splits list.splits)
qed

text \<open>
  A child without a name is entered in \<^verbatim>\<open>childrenMap\<close> under \<^verbatim>\<open>undefined\<close>, while its copy for
  the default locale is named \<^verbatim>\<open>''\<close> (\<^verbatim>\<open>route.name ?? ''\<close>): the copy does not overwrite the child
  but is appended next to it.
\<close>

lemma unnamed_child_copy_is_appended:
  "childrenOrEmpty (mutatedPage specDeps plainManager
     (NuxtPage (Some ''parent'') ''/parent'' None None (Some [NuxtPage None ''sub'' None None None])))
   = [NuxtPage None ''sub'' None None None, NuxtPage (Some []) ''sub'' None None (Some [])]"
  by (simp add: model_defs spec_defs sample_defs Let_def)

text \<open>
  C6, as stated, fails: the names generated within one sibling group are not pairwise
  distinct. Two top-level pages without a name both get a grouped route, and both routes are
  named by \<^verbatim>\<open>buildRouteName\<close> from the base name \<^verbatim>\<open>''\<close> and the code \<^verbatim>\<open>fr\<close>.
\<close>

theorem generated_names_counterexample:
  "extendPages specDeps plainManager [pageDocs, pageBlog] ''/app'' =
     Inr (plainManager,
          [NuxtPage None ''/docs'' None None
             (Some [NuxtPage (Some ''docs'') [] None None (Some [])]),
           NuxtPage None ''/blog'' None None
             (Some [NuxtPage (Some ''blog'') [] None None (Some [])]),
           NuxtPage (Some ''localized--fr'') ''/fr/docs'' None None
             (Some [NuxtPage (Some ''localized-docs-fr'') ''fr'' None None (Some [])]),
           NuxtPage (Some ''localized--fr'') ''/fr/blog'' None None
             (Some [NuxtPage (Some ''localized-blog-fr'') ''fr'' None None (Some [])])])
   \<and> \<not> distinct (map name
         [NuxtPage (Some ''localized--fr'') ''/fr/docs'' None None
            (Some [NuxtPage (Some ''localized-docs-fr'') ''fr'' None None (Some [])]),
          NuxtPage (Some ''localized--fr'') ''/fr/blog'' None None
            (Some [NuxtPage (Some ''localized-blog-fr'') ''fr'' None None (Some [])])])"
  by (simp add: model_defs spec_defs sample_defs pageDocs_def pageBlog_def Let_def)

text \<open>
  C6, amended. Every route that is appended for a page is named by \<^verbatim>\<open>buildRouteName\<close> from
  the page's base name (\<^verbatim>\<open>page.name ?? ''\<close>) and a locale code of the route: the first of the
  codes that the grouped route is built for, which is one of \<^verbatim>\<open>activeLocaleCodes\<close>, or the
  code of the configured locale that a custom route is built for. When \<^verbatim>\<open>buildRouteName\<close> is
  as the specification describes it and the codes of the configured locales are pairwise
  distinct, these names have the form \<^verbatim>\<open>localized-{baseName}-{localeCode}\<close> and the names of
  the routes appended for one page are pairwise distinct. The copies of a child route are
  named by \<^verbatim>\<open>buildLocalizedRouteName\<close>, one for each locale code they are made for:
  \<^verbatim>\<open>localized-{baseName}-{localeCode}\<close> when suffixing is asked for and the locale is not
  handled as the default locale; and the copies made of one route with suffixing for
  pairwise distinct locale codes, none handled as the default locale, have pairwise distinct
  names. Nothing is said of names generated from different routes.
\<close>

theorem generated_route_names:
  "map name (appendedRoutes d pm page) = appendedNames d pm page
   \<and> (\<forall>r \<in> set (appendedRoutes d pm page).
        (\<exists>c \<in> set (activeLocaleCodes pm).
            name r = Some (buildRouteName d (nameOrEmpty page) (Some c) False))
        \<or> (\<exists>l \<in> set (locales pm).
            name r = Some (buildRouteName d (nameOrEmpty page) (Some (code l)) True)))
   \<and> (buildRouteName d = buildRouteNameSpec \<longrightarrow> distinct (map code (locales pm)) \<longrightarrow>
        distinct (map name (appendedRoutes d pm page))
        \<and> (\<forall>r \<in> set (appendedRoutes d pm page).
              \<exists>c \<in> set (activeLocaleCodes pm) \<union> code ` set (locales pm).
                name r = Some (''localized-'' @ nameOrEmpty page @ ''-'' @ c)))
   \<and> map name (createLocalizedVariants d pm route parentPath localeCodes modifyName addLocalePrefix)
       = map (\<lambda>c. Some (buildLocalizedRouteName d pm (nameOrEmpty route) c modifyName)) localeCodes
   \<and> (\<not> isLocaleDefault d (Inl c) (defaultLocale pm) (includeDefaultLocaleRoute pm) \<longrightarrow>
        buildLocalizedRouteName d pm baseName c True = ''localized-'' @ baseName @ ''-'' @ c)
   \<and> (distinct localeCodes \<longrightarrow>
        (\<forall>c \<in> set localeCodes.
            \<not> isLocaleDefault d (Inl c) (defaultLocale pm) (includeDefaultLocaleRoute pm)) \<longrightarrow>
        distinct (map name
          (createLocalizedVariants d pm route parentPath localeCodes True addLocalePrefix)))"
proof -
  note names = names_appendedRoutes [of d pm page]
  have member: "name r \<in> set (appendedNames d pm page)" if "r \<in> set (appendedRoutes d pm page)" for r
    using that names by (metis image_eqI set_map)
  have a: "\<forall>r \<in> set (appendedRoutes d pm page).
        (\<exists>c \<in> set (activeLocaleCodes pm).
            name r = Some (buildRouteName d (nameOrEmpty page) (Some c) False))
        \<or> (\<exists>l \<in> set (locales pm).
            name r = Some (buildRouteName d (nameOrEmpty page) (Some (code l)) True))"
    using member appendedNames_codes [of d pm page] by blast
  have b: "distinct (map name (appendedRoutes d pm page))
        \<and> (\<forall>r \<in> set (appendedRoutes d pm page).
              \<exists>c \<in> set (activeLocaleCodes pm) \<union> code ` set (locales pm).
                name r = Some (''localized-'' @ nameOrEmpty page @ ''-'' @ c))"
    if naming: "buildRouteName d = buildRouteNameSpec" and codes: "distinct (map code (locales pm))"
  proof -
    have "distinct (map name (appendedRoutes d pm page))"
      using appendedNames_spec [OF naming codes, of page] by (simp only: names)
    moreover have "\<exists>c \<in> set (activeLocaleCodes pm) \<union> code ` set (locales pm).
                name r = Some (''localized-'' @ nameOrEmpty page @ ''-'' @ c)"
      if "r \<in> set (appendedRoutes d pm page)" for r
    proof -
      from a that consider
        c where "c \<in> set (activeLocaleCodes pm)"
          "name r = Some (buildRouteName d (nameOrEmpty page) (Some c) False)"
        | l where "l \<in> set (locales pm)"
          "name r = Some (buildRouteName d (nameOrEmpty page) (Some (code l)) True)"
        by blast
      then show ?thesis
      proof cases
        case 1
        then show ?thesis by (auto simp: naming buildRouteNameSpec_def)
      next
        case 2
        then show ?thesis by (auto simp: naming buildRouteNameSpec_def)
      qed
    qed
    ultimately show ?thesis by blast
  qed
  note c = names_createLocalizedVariants
             [of d pm route parentPath localeCodes modifyName addLocalePrefix]
  note e = buildLocalizedRouteName_suffixed [of d c pm baseName]
  note f = distinct_variant_names [of localeCodes d pm route parentPath addLocalePrefix]
  from names a b c e f show ?thesis by blast
qed

theorem generated_route_names_witness:
  "map name (appendedRoutes specDeps (plainManager \<lparr> localizedPaths := embeddedPaths \<rparr>)
              pageAboutFile) = [Some ''localized-about-fr'']
   \<and> map name (createLocalizedVariants specDeps plainManager pageAbout [] [''fr'', ''de''] True False)
       = [Some ''localized-about-fr'', Some ''localized-about-de'']
   \<and> distinct (map name
         (createLocalizedVariants specDeps plainManager pageAbout [] [''fr'', ''de''] True False))"
proof -
  have codes: "distinct [''fr'', ''de'']" by simp
  have others: "\<forall>c \<in> set [''fr'', ''de''].
      \<not> isLocaleDefault specDeps (Inl c) (defaultLocale plainManager)
          (includeDefaultLocaleRoute plainManager)"
    by (simp add: spec_defs sample_defs pageAboutFile_def embeddedPaths_def model_defs)
  from generated_route_names
         [of specDeps plainManager pageAbout pageAbout "[]" "[''fr'', ''de'']" True False
             "''fr''" "''about''"]
    codes others
  have "distinct (map name
         (createLocalizedVariants specDeps plainManager pageAbout [] [''fr'', ''de''] True False))"
    by blast
  moreover have "map name (createLocalizedVariants specDeps plainManager pageAbout []
                   [''fr'', ''de''] True False)
       = [Some ''localized-about-fr'', Some ''localized-about-de'']"
    by (simp add: model_defs spec_defs sample_defs pageAboutFile_def embeddedPaths_def Let_def)
  moreover have "map name (appendedRoutes specDeps (plainManager \<lparr> localizedPaths := embeddedPaths \<rparr>)
              pageAboutFile) = [Some ''localized-about-fr'']"
    by (simp add: model_defs spec_defs sample_defs pageAboutFile_def embeddedPaths_def Let_def)
  ultimately show ?thesis by simp
qed

end
